theory Spec2Isabelle
  imports Complex_Main "HOL-Library.Word" "HOL-Library.Sublist"
begin

unbundle bit_operations_syntax

section \<open>Go values used by the package\<close>

text \<open>
  Go's \<^verbatim>\<open>float64\<close>: the finite values are modelled by the real numbers they denote, and the
  three kinds of special value are kept apart. The program only compares scores with the
  constants 0, 4, 7 and 9, each of which is a float64; a comparison with NaN is false.
\<close>

datatype float64 = Finite real | PosInf | NegInf | NaN

fun f64_ge :: "float64 \<Rightarrow> real \<Rightarrow> bool" where
  "f64_ge (Finite x) c = (c \<le> x)"
| "f64_ge PosInf c = True"
| "f64_ge NegInf c = False"
| "f64_ge NaN c = False"

fun f64_gt :: "float64 \<Rightarrow> real \<Rightarrow> bool" where
  "f64_gt (Finite x) c = (c < x)"
| "f64_gt PosInf c = True"
| "f64_gt NegInf c = False"
| "f64_gt NaN c = False"

fun f64_lt :: "float64 \<Rightarrow> real \<Rightarrow> bool" where
  "f64_lt (Finite x) c = (x < c)"
| "f64_lt PosInf c = False"
| "f64_lt NegInf c = True"
| "f64_lt NaN c = False"

section \<open>CVSS score handling\<close>

type_synonym CVSSSource = string

definition CVSSSourceNVD :: CVSSSource where "CVSSSourceNVD = ''nvd''"
definition CVSSSourceGHSA :: CVSSSource where "CVSSSourceGHSA = ''ghsa''"
definition CVSSSourceRedHat :: CVSSSource where "CVSSSourceRedHat = ''redhat''"
definition CVSSSourceBitnami :: CVSSSource where "CVSSSourceBitnami = ''bitnami''"

record CVSSData =
  Source :: CVSSSource
  Score :: float64
  Vector :: string

definition CVSSPriority :: "CVSSSource list" where
  "CVSSPriority = [CVSSSourceNVD, CVSSSourceGHSA, CVSSSourceRedHat, CVSSSourceBitnami]"

text \<open>
  The loop of \<^verbatim>\<open>SelectBestCVSS\<close> over the priority slice: the first source that is a key of
  the map and whose record has \<^verbatim>\<open>Score > 0\<close> is returned; \<^verbatim>\<open>nil\<close> is \<open>None\<close>.
\<close>

fun select_from :: "CVSSSource list \<Rightarrow> (CVSSSource \<rightharpoonup> CVSSData) \<Rightarrow> CVSSData option" where
  "select_from [] cvssMap = None"
| "select_from (source # rest) cvssMap =
     (case cvssMap source of
        Some d \<Rightarrow> if f64_gt (Score d) 0 then Some d else select_from rest cvssMap
      | None \<Rightarrow> select_from rest cvssMap)"

definition SelectBestCVSS :: "(CVSSSource \<rightharpoonup> CVSSData) \<Rightarrow> CVSSData option" where
  "SelectBestCVSS cvssMap = select_from CVSSPriority cvssMap"

section \<open>Severity mapping\<close>

definition SeverityFromCVSS :: "float64 \<Rightarrow> string" where
  "SeverityFromCVSS score =
     (if f64_ge score 9 then ''critical''
      else if f64_ge score 7 then ''high''
      else if f64_ge score 4 then ''medium''
      else if f64_gt score 0 then ''low''
      else ''info'')"

section \<open>Package \<^verbatim>\<open>strings\<close>\<close>

text \<open>
  A Go string is a sequence of bytes (UTF-8 by convention); \<^typ>\<open>char\<close> is a byte.
  \<^verbatim>\<open>strings.ToUpper\<close>, \<^verbatim>\<open>strings.ToLower\<close> and \<^verbatim>\<open>strings.TrimSpace\<close> each have a path for
  ASCII input, written out here byte by byte as the library does it, and a path that consults
  the tables of package \<^verbatim>\<open>unicode\<close> as soon as a byte \<open>\<ge> 0x80\<close> (\<^verbatim>\<open>utf8.RuneSelf\<close>) is met.
  The tables are not part of this program: the four library calls that use them are the
  fields of a record that every function below takes as its first argument.
\<close>

record unicode_pkg =
  MapToUpper :: "string \<Rightarrow> string"             \<comment> \<open>\<^verbatim>\<open>strings.Map(unicode.ToUpper, s)\<close>\<close>
  MapToLower :: "string \<Rightarrow> string"             \<comment> \<open>\<^verbatim>\<open>strings.Map(unicode.ToLower, s)\<close>\<close>
  TrimFuncIsSpace :: "string \<Rightarrow> string"        \<comment> \<open>\<^verbatim>\<open>strings.TrimFunc(s, unicode.IsSpace)\<close>\<close>
  TrimRightFuncIsSpace :: "string \<Rightarrow> string"   \<comment> \<open>\<^verbatim>\<open>strings.TrimRightFunc(s, unicode.IsSpace)\<close>\<close>

definition byte :: "char \<Rightarrow> nat" where
  "byte c = of_char c"

definition RuneSelf :: nat where
  "RuneSelf = 128"

definition isASCII :: "string \<Rightarrow> bool" where
  "isASCII s = list_all (\<lambda>c. byte c < RuneSelf) s"

definition upper_byte :: "char \<Rightarrow> char" where
  "upper_byte c = (if 97 \<le> byte c \<and> byte c \<le> 122 then char_of (byte c - 32) else c)"

definition lower_byte :: "char \<Rightarrow> char" where
  "lower_byte c = (if 65 \<le> byte c \<and> byte c \<le> 90 then char_of (byte c + 32) else c)"

definition ToUpper :: "unicode_pkg \<Rightarrow> string \<Rightarrow> string" where
  "ToUpper U s = (if isASCII s then map upper_byte s else MapToUpper U s)"

definition ToLower :: "unicode_pkg \<Rightarrow> string \<Rightarrow> string" where
  "ToLower U s = (if isASCII s then map lower_byte s else MapToLower U s)"

text \<open>The table \<^verbatim>\<open>asciiSpace\<close>: tab, line feed, vertical tab, form feed, carriage return, space.\<close>

definition asciiSpace :: "char \<Rightarrow> bool" where
  "asciiSpace c = (byte c \<in> {9, 10, 11, 12, 13, 32})"

text \<open>
  \<^verbatim>\<open>TrimSpace\<close> first moves \<^verbatim>\<open>start\<close> forward, then \<^verbatim>\<open>stop\<close> backward. The second loop is
  \<open>trim_stop\<close>, which receives \<^verbatim>\<open>s[start:stop]\<close> reversed so that its head is \<^verbatim>\<open>s[stop-1]\<close>.
\<close>

fun trim_stop :: "unicode_pkg \<Rightarrow> string \<Rightarrow> string" where
  "trim_stop U [] = []"
| "trim_stop U (c # r) =
     (if RuneSelf \<le> byte c then TrimRightFuncIsSpace U (rev (c # r))
      else if asciiSpace c then trim_stop U r
      else rev (c # r))"

fun TrimSpace :: "unicode_pkg \<Rightarrow> string \<Rightarrow> string" where
  "TrimSpace U [] = []"
| "TrimSpace U (c # s) =
     (if RuneSelf \<le> byte c then TrimFuncIsSpace U (c # s)
      else if asciiSpace c then TrimSpace U s
      else trim_stop U (rev (c # s)))"

text \<open>\<^verbatim>\<open>strings.Contains(s, substr)\<close>: \<^verbatim>\<open>substr\<close> occurs in \<^verbatim>\<open>s\<close> at some byte offset.\<close>

fun Contains :: "string \<Rightarrow> string \<Rightarrow> bool" where
  "Contains [] substr = (substr = [])"
| "Contains (c # s) substr = (prefix substr (c # s) \<or> Contains s substr)"

section \<open>Severity labels\<close>

definition NormalizeSeverity :: "unicode_pkg \<Rightarrow> string \<Rightarrow> string" where
  "NormalizeSeverity U severity =
     (let l = ToUpper U (TrimSpace U severity) in
      if l = ''CRITICAL'' then ''critical''
      else if l = ''HIGH'' \<or> l = ''ERROR'' then ''high''
      else if l = ''MEDIUM'' \<or> l = ''MODERATE'' \<or> l = ''WARNING'' then ''medium''
      else if l = ''LOW'' then ''low''
      else if l = ''INFO'' \<or> l = ''INFORMATIONAL'' \<or> l = ''NOTE'' then ''info''
      else ''info'')"

section \<open>Package type detection\<close>

type_synonym PackageType = string

definition PackageTypeMaven :: PackageType where "PackageTypeMaven = ''maven''"
definition PackageTypeNPM :: PackageType where "PackageTypeNPM = ''npm''"
definition PackageTypePyPI :: PackageType where "PackageTypePyPI = ''pip''"
definition PackageTypeGo :: PackageType where "PackageTypeGo = ''gomod''"
definition PackageTypeCargo :: PackageType where "PackageTypeCargo = ''cargo''"
definition PackageTypeNuGet :: PackageType where "PackageTypeNuGet = ''nuget''"
definition PackageTypeGem :: PackageType where "PackageTypeGem = ''gem''"
definition PackageTypeComposer :: PackageType where "PackageTypeComposer = ''composer''"

definition DetectPackageType :: "unicode_pkg \<Rightarrow> string \<Rightarrow> PackageType" where
  "DetectPackageType U filename =
     (let lower = ToLower U filename in
      if Contains lower ''pom.xml'' \<or> Contains lower ''.pom'' then PackageTypeMaven
      else if Contains lower ''package.json'' \<or> Contains lower ''package-lock.json''
              \<or> Contains lower ''yarn.lock'' then PackageTypeNPM
      else if Contains lower ''requirements.txt'' \<or> Contains lower ''setup.py''
              \<or> Contains lower ''pipfile'' \<or> Contains lower ''pyproject.toml'' then PackageTypePyPI
      else if Contains lower ''go.mod'' \<or> Contains lower ''go.sum'' then PackageTypeGo
      else if Contains lower ''cargo.toml'' \<or> Contains lower ''cargo.lock'' then PackageTypeCargo
      else if Contains lower ''.csproj'' \<or> Contains lower ''packages.config''
              \<or> Contains lower ''.nuspec'' then PackageTypeNuGet
      else if Contains lower ''gemfile'' \<or> Contains lower ''.gemspec'' then PackageTypeGem
      else if Contains lower ''composer.json'' \<or> Contains lower ''composer.lock''
           then PackageTypeComposer
      else [])"

section \<open>Packages \<^verbatim>\<open>crypto/sha256\<close>, \<^verbatim>\<open>encoding/hex\<close> and \<^verbatim>\<open>fmt\<close>\<close>

text \<open>
  \<^verbatim>\<open>sha256.Sum256\<close> on 32-bit words, as the library's generic block function computes it:
  the message is padded to a multiple of 64 bytes, each block extends to a schedule of
  64 words and runs 64 rounds over the eight working variables.
\<close>

type_synonym uint8 = "8 word"
type_synonym uint32 = "32 word"
type_synonym digest_state =
  "uint32 \<times> uint32 \<times> uint32 \<times> uint32 \<times> uint32 \<times> uint32 \<times> uint32 \<times> uint32"

text \<open>
  The table \<^verbatim>\<open>_K\<close> (the first 32 bits of the fractional parts of the cube roots of the first
  64 primes) and the initial state (the same of the square roots of the first 8 primes), in
  decimal.
\<close>

definition K256 :: "uint32 list" where
  "K256 =
     [1116352408, 1899447441, 3049323471, 3921009573,
      961987163, 1508970993, 2453635748, 2870763221,
      3624381080, 310598401, 607225278, 1426881987,
      1925078388, 2162078206, 2614888103, 3248222580,
      3835390401, 4022224774, 264347078, 604807628,
      770255983, 1249150122, 1555081692, 1996064986,
      2554220882, 2821834349, 2952996808, 3210313671,
      3336571891, 3584528711, 113926993, 338241895,
      666307205, 773529912, 1294757372, 1396182291,
      1695183700, 1986661051, 2177026350, 2456956037,
      2730485921, 2820302411, 3259730800, 3345764771,
      3516065817, 3600352804, 4094571909, 275423344,
      430227734, 506948616, 659060556, 883997877,
      958139571, 1322822218, 1537002063, 1747873779,
      1955562222, 2024104815, 2227730452, 2361852424,
      2428436474, 2756734187, 3204031479, 3329325298]"

definition init256 :: digest_state where
  "init256 = (1779033703, 3144134277, 1013904242, 2773480762,
              1359893119, 2600822924, 528734635, 1541459225)"

definition rotr :: "nat \<Rightarrow> uint32 \<Rightarrow> uint32" where
  "rotr n x = drop_bit n x OR push_bit (32 - n) x"

definition be32 :: "uint8 \<Rightarrow> uint8 \<Rightarrow> uint8 \<Rightarrow> uint8 \<Rightarrow> uint32" where
  "be32 a b c d = push_bit 24 (ucast a) OR push_bit 16 (ucast b) OR push_bit 8 (ucast c) OR ucast d"

fun load_words :: "uint8 list \<Rightarrow> uint32 list" where
  "load_words (a # b # c # d # p) = be32 a b c d # load_words p"
| "load_words p = []"

fun extend_schedule :: "nat \<Rightarrow> uint32 list \<Rightarrow> uint32 list" where
  "extend_schedule 0 w = w"
| "extend_schedule (Suc n) w =
     (let i = length w;
          v1 = w ! (i - 2);
          t1 = rotr 17 v1 XOR rotr 19 v1 XOR drop_bit 10 v1;
          v2 = w ! (i - 15);
          t2 = rotr 7 v2 XOR rotr 18 v2 XOR drop_bit 3 v2
      in extend_schedule n (w @ [t1 + w ! (i - 7) + t2 + w ! (i - 16)]))"

fun round256 :: "digest_state \<Rightarrow> uint32 \<times> uint32 \<Rightarrow> digest_state" where
  "round256 (a, b, c, d, e, f, g, h) (k, w) =
     (let t1 = h + (rotr 6 e XOR rotr 11 e XOR rotr 25 e) + ((e AND f) XOR (NOT e AND g)) + k + w;
          t2 = (rotr 2 a XOR rotr 13 a XOR rotr 22 a) + ((a AND b) XOR (a AND c) XOR (b AND c))
      in (t1 + t2, a, b, c, d + t1, e, f, g))"

fun add_state :: "digest_state \<Rightarrow> digest_state \<Rightarrow> digest_state" where
  "add_state (h0, h1, h2, h3, h4, h5, h6, h7) (a, b, c, d, e, f, g, h) =
     (h0 + a, h1 + b, h2 + c, h3 + d, h4 + e, h5 + f, h6 + g, h7 + h)"

definition block256 :: "digest_state \<Rightarrow> uint8 list \<Rightarrow> digest_state" where
  "block256 hs p =
     add_state hs (foldl round256 hs (zip K256 (extend_schedule 48 (load_words p))))"

fun blocks256 :: "digest_state \<Rightarrow> uint8 list \<Rightarrow> digest_state" where
  "blocks256 hs p =
     (if length p < 64 then hs else blocks256 (block256 hs (take 64 p)) (drop 64 p))"

declare blocks256.simps [simp del]

definition be_bytes32 :: "uint32 \<Rightarrow> uint8 list" where
  "be_bytes32 x = [ucast (drop_bit 24 x), ucast (drop_bit 16 x), ucast (drop_bit 8 x), ucast x]"

definition be_bytes64 :: "64 word \<Rightarrow> uint8 list" where
  "be_bytes64 x = map (\<lambda>i. ucast (drop_bit (8 * i) x)) [7, 6, 5, 4, 3, 2, 1, 0]"

definition padding256 :: "nat \<Rightarrow> uint8 list" where
  "padding256 len =
     (let t = (if len mod 64 < 56 then 56 - len mod 64 else 64 + 56 - len mod 64)
      in 0x80 # replicate (t - 1) 0 @ be_bytes64 (push_bit 3 (of_nat len)))"

fun state_bytes :: "digest_state \<Rightarrow> uint8 list" where
  "state_bytes (a, b, c, d, e, f, g, h) =
     be_bytes32 a @ be_bytes32 b @ be_bytes32 c @ be_bytes32 d @
     be_bytes32 e @ be_bytes32 f @ be_bytes32 g @ be_bytes32 h"

definition Sum256 :: "uint8 list \<Rightarrow> uint8 list" where
  "Sum256 msg = state_bytes (blocks256 init256 (msg @ padding256 (length msg)))"

text \<open>\<^verbatim>\<open>hex.EncodeToString\<close>: two characters of \<^verbatim>\<open>hextable\<close> for every byte, high nibble first.\<close>

definition hextable :: string where
  "hextable = ''0123456789abcdef''"

definition EncodeToString :: "uint8 list \<Rightarrow> string" where
  "EncodeToString src =
     concat (map (\<lambda>v. [hextable ! unat (drop_bit 4 v), hextable ! unat (v AND 0x0f)]) src)"

text \<open>\<^verbatim>\<open>[]byte(s)\<close>: the bytes of a string.\<close>

definition bytes_of :: "string \<Rightarrow> uint8 list" where
  "bytes_of s = map of_char s"

text \<open>
  The verb \<^verbatim>\<open>%d\<close> of \<^verbatim>\<open>fmt.Sprintf\<close> on an \<^verbatim>\<open>int\<close>: decimal digits, a leading minus sign for a
  negative number. Go's \<^verbatim>\<open>int\<close> is a 64-bit machine integer; the fingerprint functions do no
  arithmetic on it, so the argument is an \<^typ>\<open>int\<close> here.
\<close>

fun decimal :: "nat \<Rightarrow> string" where
  "decimal n = (if n < 10 then [char_of (48 + n)] else decimal (n div 10) @ [char_of (48 + n mod 10)])"

declare decimal.simps [simp del]

definition fmt_d :: "int \<Rightarrow> string" where
  "fmt_d i = (if i < 0 then CHR ''-'' # decimal (nat (- i)) else decimal (nat i))"

section \<open>Fingerprint generation\<close>

definition hashString :: "string \<Rightarrow> string" where
  "hashString s = EncodeToString (Sum256 (bytes_of s))"

definition GenerateSastFingerprint :: "string \<Rightarrow> string \<Rightarrow> int \<Rightarrow> string" where
  "GenerateSastFingerprint file ruleID startLine =
     (let raw = file @ '':'' @ ruleID @ '':'' @ fmt_d startLine in hashString raw)"

definition GenerateScaFingerprint :: "string \<Rightarrow> string \<Rightarrow> string \<Rightarrow> string" where
  "GenerateScaFingerprint pkgName pkgVersion vulnID =
     (let raw = pkgName @ '':'' @ pkgVersion @ '':'' @ vulnID in hashString raw)"

definition GenerateSecretFingerprint :: "string \<Rightarrow> string \<Rightarrow> int \<Rightarrow> string \<Rightarrow> string" where
  "GenerateSecretFingerprint file ruleID startLine secretValue =
     (let secretHash = take 8 (hashString secretValue);
          raw = file @ '':'' @ ruleID @ '':'' @ fmt_d startLine @ '':'' @ secretHash
      in hashString raw)"

section \<open>Scanner execution\<close>

subsection \<open>Configuration, result and errors\<close>

text \<open>
  \<^verbatim>\<open>ExecConfig\<close>. \<^verbatim>\<open>Env\<close> is a Go map: a list of pairs with distinct keys, in the order in which
  the \<^verbatim>\<open>range\<close> loop happens to visit them. \<^verbatim>\<open>Timeout\<close> is a \<^verbatim>\<open>time.Duration\<close>, a number of
  nanoseconds.
\<close>

record ExecConfig =
  Binary :: string
  Args :: "string list"
  WorkDir :: string
  Env :: "(string \<times> string) list"
  Timeout :: int
  Verbose :: bool

text \<open>
  How a process ended (\<^verbatim>\<open>os.ProcessState\<close>): it exited with a status, or a signal terminated
  it. \<^verbatim>\<open>ExitCode()\<close> is the status of an exited process and -1 for a signalled one.
\<close>

datatype ProcessState = Exited int | Signaled nat

fun Success :: "ProcessState \<Rightarrow> bool" where
  "Success (Exited n) = (n = 0)"
| "Success (Signaled sig) = False"

fun ExitCode_of :: "ProcessState \<Rightarrow> int" where
  "ExitCode_of (Exited n) = n"
| "ExitCode_of (Signaled sig) = - 1"

definition SIGKILL :: nat where
  "SIGKILL = 9"

text \<open>
  Go error values: an \<^verbatim>\<open>*exec.ExitError\<close> carrying the process state, any other error of the
  library (identified by its message), and \<^verbatim>\<open>fmt.Errorf("...: %w", err)\<close> wrapping an error
  behind a prefix.
\<close>

datatype go_error = ExitError ProcessState | LibError string | Errorf string go_error

record ExecResult =
  ExitCode :: int
  Stdout :: string
  Stderr :: string
  DurationMs :: int
  Error :: "go_error option"

subsection \<open>The command and the operating system\<close>

text \<open>
  \<^verbatim>\<open>exec.Cmd\<close>, with the fields this program sets. \<^verbatim>\<open>Cmd_Env = None\<close> is the \<^verbatim>\<open>nil\<close> slice:
  the child then runs in the environment of the calling process.
\<close>

record Cmd =
  Cmd_Path :: string
  Cmd_Args :: "string list"
  Cmd_Dir :: string
  Cmd_Env :: "string list option"

definition CommandContext :: "string \<Rightarrow> string list \<Rightarrow> Cmd" where
  "CommandContext name arg = \<lparr>Cmd_Path = name, Cmd_Args = name # arg, Cmd_Dir = [], Cmd_Env = None\<rparr>"

text \<open>
  A pipe as its reader sees it: the bytes it delivers up to the first error of the
  underlying \<^verbatim>\<open>Read\<close>, and that error, which is \<^verbatim>\<open>io.EOF\<close> when the writing end was closed.
\<close>

datatype read_end = EOF | ReadFailed string

type_synonym reader = "string \<times> read_end"

text \<open>
  What a started child does: the bytes it writes to its two output streams, the time in
  nanoseconds after which it exits by itself (\<open>None\<close>: it never does) and the status it
  exits with.
\<close>

record child =
  writes_stdout :: reader
  writes_stderr :: reader
  exits_after :: "nat option"
  exit_status :: int

text \<open>
  Everything outside the program is an argument of the model: the results of the library
  calls that ask the operating system for something, for the command they are made on.
  \<^item> \<open>Environ\<close>: \<^verbatim>\<open>cmd.Environ()\<close>, the environment the command inherits from the caller;
  \<^item> \<open>StdoutPipe_fails\<close>, \<open>StderrPipe_fails\<close>, \<open>Start_fails\<close>: the error, if any, of
    \<^verbatim>\<open>cmd.StdoutPipe()\<close>, \<^verbatim>\<open>cmd.StderrPipe()\<close> and \<^verbatim>\<open>cmd.Start()\<close>;
  \<^item> \<open>spawn\<close>: the behaviour of the child that \<^verbatim>\<open>cmd.Start()\<close> creates;
  \<^item> \<open>Wait_fails\<close>: the error, if any, of the system call under \<^verbatim>\<open>cmd.Wait()\<close>;
  \<^item> \<open>since_start\<close>: the value of \<^verbatim>\<open>time.Since(start)\<close> when the result is built, in
    nanoseconds.
\<close>

record os =
  Environ :: "Cmd \<Rightarrow> string list"
  StdoutPipe_fails :: "Cmd \<Rightarrow> string option"
  StderrPipe_fails :: "Cmd \<Rightarrow> string option"
  Start_fails :: "Cmd \<Rightarrow> string option"
  spawn :: "Cmd \<Rightarrow> child"
  Wait_fails :: "string option"
  since_start :: int

text \<open>
  A \<^verbatim>\<open>context.Context\<close> is the time in nanoseconds, counted from the call, after which it is
  done; \<open>None\<close> is a context that is never done. \<^verbatim>\<open>context.WithTimeout\<close> keeps the earlier of
  the parent's deadline and the new one.
\<close>

type_synonym Context = "nat option"

definition WithTimeout :: "Context \<Rightarrow> int \<Rightarrow> Context" where
  "WithTimeout ctx d = (case ctx of None \<Rightarrow> Some (nat d) | Some c \<Rightarrow> Some (min c (nat d)))"

text \<open>
  \<^verbatim>\<open>cmd.Wait()\<close> of package \<^verbatim>\<open>os/exec\<close> for a command made by \<^verbatim>\<open>exec.CommandContext\<close>. A
  context that is done before the child has exited kills the child (\<^verbatim>\<open>os.Process.Kill\<close>).
  \<^verbatim>\<open>Wait\<close> returns the error of the system call if there is one; otherwise an \<^verbatim>\<open>*ExitError\<close>
  when the process state is not a success, which includes termination by the kill signal;
  otherwise \<^verbatim>\<open>nil\<close>. The outer \<open>None\<close> is a call that never returns: the child never exits
  and nothing kills it.
\<close>

definition killed_by :: "Context \<Rightarrow> child \<Rightarrow> bool" where
  "killed_by ctx ch =
     (case ctx of None \<Rightarrow> False
      | Some d \<Rightarrow> (case exits_after ch of None \<Rightarrow> True | Some l \<Rightarrow> d < l))"

definition final_state :: "Context \<Rightarrow> child \<Rightarrow> ProcessState option" where
  "final_state ctx ch =
     (if killed_by ctx ch then Some (Signaled SIGKILL)
      else (case exits_after ch of None \<Rightarrow> None | Some l \<Rightarrow> Some (Exited (exit_status ch))))"

definition cmd_Wait :: "os \<Rightarrow> Context \<Rightarrow> child \<Rightarrow> go_error option option" where
  "cmd_Wait w ctx ch =
     (case final_state ctx ch of
        None \<Rightarrow> None
      | Some state \<Rightarrow>
          (case Wait_fails w of
             Some e \<Rightarrow> Some (Some (LibError e))
           | None \<Rightarrow> if Success state then Some None else Some (Some (ExitError state))))"

text \<open>\<^verbatim>\<open>Duration.Milliseconds()\<close>: integer division by \<open>10\<^sup>6\<close>, truncating toward zero.\<close>

definition Milliseconds :: "int \<Rightarrow> int" where
  "Milliseconds d = (if 0 \<le> d then d div 1000000 else - ((- d) div 1000000))"

subsection \<open>Capturing a stream\<close>

definition newline :: char where
  "newline = CHR 0x0A"

definition carriage_return :: char where
  "carriage_return = CHR 0x0D"

text \<open>
  \<^verbatim>\<open>bufio.Reader.ReadBytes(delim)\<close>: the bytes up to and including the first \<^verbatim>\<open>delim\<close>; when the
  input ends before a \<^verbatim>\<open>delim\<close>, the bytes read so far together with the error.
\<close>

fun split_after :: "char \<Rightarrow> string \<Rightarrow> string \<times> string option" where
  "split_after delim [] = ([], None)"
| "split_after delim (c # cs) =
     (if c = delim then ([c], Some cs)
      else (case split_after delim cs of (line, rest) \<Rightarrow> (c # line, rest)))"

definition ReadBytes :: "reader \<Rightarrow> char \<Rightarrow> (string \<times> read_end option) \<times> reader" where
  "ReadBytes r delim =
     (case split_after delim (fst r) of
        (line, Some rest) \<Rightarrow> ((line, None), (rest, snd r))
      | (line, None) \<Rightarrow> ((line, Some (snd r)), ([], snd r)))"

text \<open>
  The loop of \<^verbatim>\<open>captureOutput\<close>. The second component of the state is what \<^verbatim>\<open>fmt.Printf\<close>
  has written to the console, one entry per call.
\<close>

function capture_loop ::
  "reader \<Rightarrow> bool \<Rightarrow> string \<Rightarrow> string \<times> string list \<Rightarrow> string \<times> string list" where
  "capture_loop r stream pfx (buf, console) =
     (case ReadBytes r newline of
        ((line, err), r') \<Rightarrow>
          (let acc = (if 0 < length line
                      then (buf @ line,
                            if stream then console @ [''['' @ pfx @ ''] '' @ line] else console)
                      else (buf, console))
           in (case err of Some e \<Rightarrow> acc | None \<Rightarrow> capture_loop r' stream pfx acc)))"
  by pat_completeness auto
termination
proof (relation "measure (\<lambda>(r, stream, pfx, acc). length (fst r))", goal_cases)
  case 1
  show ?case by simp
next
  case (2 r stream pfx buf console x1 r' line err acc)
  have shorter: "split_after d s = (l, Some t) \<Longrightarrow> length t < length s" for d s l t
    by (induction s arbitrary: l) (auto split: if_splits prod.splits)
  from 2 show ?case
    by (auto simp: ReadBytes_def split: prod.splits option.splits dest: shorter)
qed

declare capture_loop.simps [simp del]

definition captureOutput :: "reader \<Rightarrow> bool \<Rightarrow> string \<Rightarrow> string \<times> string list" where
  "captureOutput r stream pfx = capture_loop r stream pfx ([], [])"

text \<open>
  \<^verbatim>\<open>bufio.Scanner\<close> with its default split function \<^verbatim>\<open>ScanLines\<close> and its default buffer:
  \<open>Scan_tokens cur input\<close> is the list of tokens that the successive calls of \<^verbatim>\<open>Scan()\<close>
  deliver before \<^verbatim>\<open>Scan()\<close> returns false, where \<open>cur\<close> is the part of the current line
  already in the buffer. A token ends at a line feed; \<^verbatim>\<open>dropCR\<close> removes one carriage return
  before it. The last line is a token also when no line feed ends it, unless it is empty.
  The buffer holds at most \<^verbatim>\<open>MaxScanTokenSize\<close> bytes: when it is full and contains no line
  feed, \<^verbatim>\<open>Scan()\<close> sets \<^verbatim>\<open>ErrTooLong\<close> and returns false, here and on every later call.
\<close>

definition MaxScanTokenSize :: nat where
  "MaxScanTokenSize = 64 * 1024"

definition dropCR :: "string \<Rightarrow> string" where
  "dropCR data = (if data \<noteq> [] \<and> last data = carriage_return then butlast data else data)"

fun Scan_tokens :: "string \<Rightarrow> string \<Rightarrow> string list" where
  "Scan_tokens cur [] = (if cur = [] then [] else [dropCR cur])"
| "Scan_tokens cur (c # input) =
     (if c = newline then dropCR cur # Scan_tokens [] input
      else if MaxScanTokenSize \<le> length cur + 1 then []
      else Scan_tokens (cur @ [c]) input)"

text \<open>
  \<^verbatim>\<open>streamWithHandler\<close>: \<open>handler\<close> says whether the handler is not \<^verbatim>\<open>nil\<close>; the second
  component of the result is the sequence of calls made to it.
\<close>

definition streamWithHandler ::
  "reader \<Rightarrow> bool \<Rightarrow> bool \<Rightarrow> string \<times> (string \<times> bool) list" where
  "streamWithHandler r handler isError =
     foldl (\<lambda>(buf, calls) line.
              (buf @ line @ [newline], if handler then calls @ [(line, isError)] else calls))
       ([], []) (Scan_tokens [] (fst r))"

subsection \<open>Running a scanner\<close>

text \<open>The command that \<^verbatim>\<open>ExecuteScanner\<close> configures before it asks for the pipes.\<close>

definition ExecuteScanner_cmd :: "os \<Rightarrow> ExecConfig \<Rightarrow> Cmd" where
  "ExecuteScanner_cmd w cfg =
     (let cmd = CommandContext (Binary cfg) (Args cfg);
          cmd = (if WorkDir cfg \<noteq> [] then cmd\<lparr>Cmd_Dir := WorkDir cfg\<rparr> else cmd)
      in if 0 < length (Env cfg)
         then cmd\<lparr>Cmd_Env :=
                Some (foldl (\<lambda>env (k, v). env @ [k @ ''='' @ v]) (Environ w cmd) (Env cfg))\<rparr>
         else cmd)"

text \<open>The command that \<^verbatim>\<open>StreamScanner\<close> configures.\<close>

definition StreamScanner_cmd :: "os \<Rightarrow> ExecConfig \<Rightarrow> Cmd" where
  "StreamScanner_cmd w cfg =
     (let cmd = CommandContext (Binary cfg) (Args cfg)
      in if WorkDir cfg \<noteq> [] then cmd\<lparr>Cmd_Dir := WorkDir cfg\<rparr> else cmd)"

text \<open>
  The end of both functions: the result is built from the two buffers and the clock, then
  the error of \<^verbatim>\<open>cmd.Wait()\<close> goes to \<^verbatim>\<open>ExitCode\<close> when it is an \<^verbatim>\<open>*exec.ExitError\<close> and to
  \<^verbatim>\<open>Error\<close> otherwise.
\<close>

definition make_result :: "os \<Rightarrow> string \<Rightarrow> string \<Rightarrow> go_error option \<Rightarrow> ExecResult" where
  "make_result w stdoutBuf stderrBuf err =
     (let result = \<lparr>ExitCode = 0, Stdout = stdoutBuf, Stderr = stderrBuf,
                     DurationMs = Milliseconds (since_start w), Error = None\<rparr>
      in case err of
           None \<Rightarrow> result
         | Some (ExitError state) \<Rightarrow> result\<lparr>ExitCode := ExitCode_of state\<rparr>
         | Some e \<Rightarrow> result\<lparr>Error := Some e\<rparr>)"

text \<open>
  \<^verbatim>\<open>ExecuteScanner\<close> returns the Go pair \<^verbatim>\<open>(*ExecResult, error)\<close>; a \<^verbatim>\<open>nil\<close> component is
  \<open>None\<close>. The outer \<open>None\<close> is a call that never returns. The two goroutines write to
  different buffers and the function waits for both, so their results are those of the two
  calls of \<^verbatim>\<open>captureOutput\<close>; the console output of the verbose mode is not part of the result.
\<close>

definition ExecuteScanner ::
  "os \<Rightarrow> Context \<Rightarrow> ExecConfig \<Rightarrow> (ExecResult option \<times> go_error option) option" where
  "ExecuteScanner w ctx cfg =
     (let ctx = (if 0 < Timeout cfg then WithTimeout ctx (Timeout cfg) else ctx);
          cmd = ExecuteScanner_cmd w cfg
      in case StdoutPipe_fails w cmd of
           Some e \<Rightarrow> Some (None, Some (Errorf ''failed to create stdout pipe'' (LibError e)))
         | None \<Rightarrow>
       (case StderrPipe_fails w cmd of
           Some e \<Rightarrow> Some (None, Some (Errorf ''failed to create stderr pipe'' (LibError e)))
         | None \<Rightarrow>
       (case Start_fails w cmd of
           Some e \<Rightarrow> Some (None, Some (Errorf ''failed to start scanner'' (LibError e)))
         | None \<Rightarrow>
       (let ch = spawn w cmd;
            stdoutBuf = fst (captureOutput (writes_stdout ch) (Verbose cfg) ''stdout'');
            stderrBuf = fst (captureOutput (writes_stderr ch) (Verbose cfg) ''stderr'')
        in case cmd_Wait w ctx ch of
             None \<Rightarrow> None
           | Some err \<Rightarrow> Some (Some (make_result w stdoutBuf stderrBuf err), None)))))"

definition StreamScanner ::
  "os \<Rightarrow> Context \<Rightarrow> ExecConfig \<Rightarrow> bool \<Rightarrow> (ExecResult option \<times> go_error option) option" where
  "StreamScanner w ctx cfg handler =
     (let ctx = (if 0 < Timeout cfg then WithTimeout ctx (Timeout cfg) else ctx);
          cmd = StreamScanner_cmd w cfg
      in case StdoutPipe_fails w cmd of
           Some e \<Rightarrow> Some (None, Some (Errorf ''failed to create stdout pipe'' (LibError e)))
         | None \<Rightarrow>
       (case StderrPipe_fails w cmd of
           Some e \<Rightarrow> Some (None, Some (Errorf ''failed to create stderr pipe'' (LibError e)))
         | None \<Rightarrow>
       (case Start_fails w cmd of
           Some e \<Rightarrow> Some (None, Some (Errorf ''failed to start scanner'' (LibError e)))
         | None \<Rightarrow>
       (let ch = spawn w cmd;
            stdoutBuf = fst (streamWithHandler (writes_stdout ch) handler False);
            stderrBuf = fst (streamWithHandler (writes_stderr ch) handler True)
        in case cmd_Wait w ctx ch of
             None \<Rightarrow> None
           | Some err \<Rightarrow> Some (Some (make_result w stdoutBuf stderrBuf err), None)))))"

section \<open>Notions used in the statements\<close>

text \<open>A source is usable in a map when it is a key and its record has a strictly positive score.\<close>

definition usable :: "(CVSSSource \<rightharpoonup> CVSSData) \<Rightarrow> CVSSSource \<Rightarrow> bool" where
  "usable m s = (case m s of Some d \<Rightarrow> f64_gt (Score d) 0 | None \<Rightarrow> False)"

definition ghsa_5 :: CVSSData where
  "ghsa_5 = \<lparr>Source = ''ghsa'', Score = Finite 5.0, Vector = ''CVSS:3.1/AV:N''\<rparr>"

definition redhat_9 :: CVSSData where
  "redhat_9 = \<lparr>Source = ''redhat'', Score = Finite 9.0, Vector = ''CVSS:3.1/AV:L''\<rparr>"

definition ghsa_redhat :: "CVSSSource \<rightharpoonup> CVSSData" where
  "ghsa_redhat = [''ghsa'' \<mapsto> ghsa_5, ''redhat'' \<mapsto> redhat_9]"

text \<open>The number that a string of decimal digits denotes.\<close>

definition digit_value :: "char \<Rightarrow> nat" where
  "digit_value c = of_char c - 48"

definition decimal_value :: "string \<Rightarrow> nat" where
  "decimal_value s = foldl (\<lambda>a c. 10 * a + digit_value c) 0 s"

text \<open>
  A string without its leading and trailing ASCII white space, and a string in upper or
  lower case, byte by byte.
\<close>

definition trimmed :: "string \<Rightarrow> string" where
  "trimmed s = rev (dropWhile asciiSpace (rev (dropWhile asciiSpace s)))"

definition upper :: "string \<Rightarrow> string" where
  "upper s = map upper_byte s"

definition lower :: "string \<Rightarrow> string" where
  "lower s = map lower_byte s"

text \<open>The marker names of each package type, in the order in which they are tried.\<close>

definition manifest_markers :: "(PackageType \<times> string list) list" where
  "manifest_markers =
     [(''maven'', [''pom.xml'', ''.pom'']),
      (''npm'', [''package.json'', ''package-lock.json'', ''yarn.lock'']),
      (''pip'', [''requirements.txt'', ''setup.py'', ''pipfile'', ''pyproject.toml'']),
      (''gomod'', [''go.mod'', ''go.sum'']),
      (''cargo'', [''cargo.toml'', ''cargo.lock'']),
      (''nuget'', [''.csproj'', ''packages.config'', ''.nuspec'']),
      (''gem'', [''gemfile'', ''.gemspec'']),
      (''composer'', [''composer.json'', ''composer.lock''])]"

definition marker_occurs :: "string \<Rightarrow> PackageType \<times> string list \<Rightarrow> bool" where
  "marker_occurs name entry = list_ex (\<lambda>marker. sublist marker name) (snd entry)"

text \<open>
  A stream in which one line has as many bytes as the scanner's buffer: a short line, a line
  of 65536 letters and a third line.
\<close>

definition long_line_stream :: string where
  "long_line_stream =
     ''ok'' @ [newline] @ replicate 65536 CHR ''a'' @ [newline] @ ''lost'' @ [newline]"

text \<open>
  A configuration with a working directory, one environment override and a timeout of
  100 ms, and three situations in which it is run: the binary is missing; the child would
  run for 5 s, is killed at the deadline and the call returns after 100.2 ms; the child
  exits by itself with status 3 after 20 ms.
\<close>

definition cfg_trivy :: ExecConfig where
  "cfg_trivy = \<lparr>Binary = ''trivy'', Args = [''fs'', ''.''], WorkDir = ''/src'',
                 Env = [(''FOO'', ''bar'')], Timeout = 100000000, Verbose = False\<rparr>"

definition os_with :: "string option \<Rightarrow> child \<Rightarrow> int \<Rightarrow> os" where
  "os_with start ch elapsed =
     \<lparr>Environ = (\<lambda>cmd. [''PATH=/usr/bin'']),
      StdoutPipe_fails = (\<lambda>cmd. None), StderrPipe_fails = (\<lambda>cmd. None),
      Start_fails = (\<lambda>cmd. start), spawn = (\<lambda>cmd. ch),
      Wait_fails = None, since_start = elapsed\<rparr>"

definition slow_child :: child where
  "slow_child = \<lparr>writes_stdout = (''scanning'' @ [newline], EOF), writes_stderr = ([], EOF),
                  exits_after = Some 5000000000, exit_status = 0\<rparr>"

definition failing_child :: child where
  "failing_child = \<lparr>writes_stdout = (''found 3 issues'' @ [newline], EOF),
                     writes_stderr = ([], EOF), exits_after = Some 20000000, exit_status = 3\<rparr>"

definition os_missing_binary :: os where
  "os_missing_binary =
     os_with (Some ''exec: \"trivy\": executable file not found in $PATH'') slow_child 50000"

definition os_slow_child :: os where
  "os_slow_child = os_with None slow_child 100200300"

definition os_failing_child :: os where
  "os_failing_child = os_with None failing_child 20300400"

text \<open>
  The invocation has started when both pipes were created and \<^verbatim>\<open>cmd.Start()\<close> succeeded. The
  context that governs the child is the caller's, with the timeout added when it is positive.
\<close>

definition started :: "os \<Rightarrow> Cmd \<Rightarrow> bool" where
  "started w cmd =
     (StdoutPipe_fails w cmd = None \<and> StderrPipe_fails w cmd = None \<and> Start_fails w cmd = None)"

definition governing :: "Context \<Rightarrow> ExecConfig \<Rightarrow> Context" where
  "governing ctx cfg = (if 0 < Timeout cfg then WithTimeout ctx (Timeout cfg) else ctx)"

text \<open>
  The lines of a stream, without their line feeds: \<open>cur\<close> is the beginning of the current
  line. A last line that no line feed ends counts when it is not empty.
\<close>

fun stream_lines :: "string \<Rightarrow> string \<Rightarrow> string list" where
  "stream_lines cur [] = (if cur = [] then [] else [cur])"
| "stream_lines cur (c # input) =
     (if c = newline then cur # stream_lines [] input else stream_lines (cur @ [c]) input)"

section \<open>CVSS selection\<close>

lemma select_from_step:
  "select_from (p # ps) m = (if usable m p then m p else select_from ps m)"
  by (auto simp: usable_def split: option.splits)

lemma select_from_None: "(select_from ps m = None) = (\<forall>s \<in> set ps. \<not> usable m s)"
  by (induction ps) (auto simp: usable_def split: option.splits)

lemma select_from_first:
  "(select_from ps m = Some d) =
   (\<exists>i < length ps. m (ps ! i) = Some d \<and> usable m (ps ! i) \<and> (\<forall>j < i. \<not> usable m (ps ! j)))"
proof (induction ps)
  case Nil
  then show ?case by simp
next
  case (Cons p ps)
  show ?case
  proof (cases "usable m p")
    case True
    have "select_from (p # ps) m = Some d \<longleftrightarrow> m p = Some d"
      using True by (simp only: select_from_step if_True)
    also have "\<dots> \<longleftrightarrow> (\<exists>i < length (p # ps). m ((p # ps) ! i) = Some d \<and> usable m ((p # ps) ! i)
                          \<and> (\<forall>j < i. \<not> usable m ((p # ps) ! j)))" (is "_ \<longleftrightarrow> ?R")
    proof
      assume "m p = Some d"
      with True show ?R by (intro exI[of _ 0]) simp
    next
      assume ?R
      then obtain i where i: "m ((p # ps) ! i) = Some d" "\<forall>j < i. \<not> usable m ((p # ps) ! j)"
        by blast
      from i(2) True have "i = 0" by (cases i) auto
      with i(1) show "m p = Some d" by simp
    qed
    finally show ?thesis .
  next
    case False
    have "(\<exists>i < length (p # ps). m ((p # ps) ! i) = Some d \<and> usable m ((p # ps) ! i)
               \<and> (\<forall>j < i. \<not> usable m ((p # ps) ! j)))
        = (\<exists>i < length ps. m (ps ! i) = Some d \<and> usable m (ps ! i) \<and> (\<forall>j < i. \<not> usable m (ps ! j)))"
      (is "?L = ?R")
    proof
      assume ?L
      then obtain i where i: "i < length (p # ps)" "m ((p # ps) ! i) = Some d"
        "usable m ((p # ps) ! i)" "\<forall>j < i. \<not> usable m ((p # ps) ! j)" by blast
      with False obtain k where k: "i = Suc k" by (cases i) auto
      have "\<forall>j < k. \<not> usable m (ps ! j)"
      proof (intro allI impI)
        fix j assume "j < k"
        then have "Suc j < i" using k by simp
        with i(4) have "\<not> usable m ((p # ps) ! Suc j)" by blast
        then show "\<not> usable m (ps ! j)" by simp
      qed
      with i k show ?R by auto
    next
      assume ?R
      then obtain i where i: "i < length ps" "m (ps ! i) = Some d" "usable m (ps ! i)"
        "\<forall>j < i. \<not> usable m (ps ! j)" by blast
      have "\<forall>j < Suc i. \<not> usable m ((p # ps) ! j)"
      proof (intro allI impI)
        fix j assume "j < Suc i"
        then show "\<not> usable m ((p # ps) ! j)" using False i(4) by (cases j) auto
      qed
      with i show ?L by (intro exI[of _ "Suc i"]) auto
    qed
    with False Cons.IH show ?thesis by (simp only: select_from_step if_False)
  qed
qed

lemma CVSSPriority_value: "CVSSPriority = [''nvd'', ''ghsa'', ''redhat'', ''bitnami'']"
  by (simp add: CVSSPriority_def CVSSSourceNVD_def CVSSSourceGHSA_def CVSSSourceRedHat_def
      CVSSSourceBitnami_def)

lemma SelectBestCVSS_ghsa_redhat: "SelectBestCVSS ghsa_redhat = Some ghsa_5"
  by (simp add: SelectBestCVSS_def CVSSPriority_value ghsa_redhat_def ghsa_5_def redhat_9_def)

text \<open>
  Claim C3. The priority order is NVD, GHSA, RedHat, Bitnami. \<^verbatim>\<open>SelectBestCVSS\<close> returns a
  record exactly when that record is stored under the first source of the priority order
  that is usable, that is, present in the mapping with a strictly positive score; it
  returns no record exactly when no source of the priority order is usable, in particular
  for the empty mapping and for a mapping all of whose scores are not positive. On
  \<open>{ghsa: 5.0, redhat: 9.0}\<close> the result is the GHSA record, whose score is 5.0.
\<close>

theorem SelectBestCVSS_first_usable:
  "CVSSPriority = [''nvd'', ''ghsa'', ''redhat'', ''bitnami''] \<and>
   (SelectBestCVSS m = Some d \<longleftrightarrow>
      (\<exists>i < length CVSSPriority. m (CVSSPriority ! i) = Some d \<and> usable m (CVSSPriority ! i)
          \<and> (\<forall>j < i. \<not> usable m (CVSSPriority ! j)))) \<and>
   (SelectBestCVSS m = None \<longleftrightarrow> (\<forall>s \<in> set CVSSPriority. \<not> usable m s)) \<and>
   (m = Map.empty \<longrightarrow> SelectBestCVSS m = None) \<and>
   ((\<forall>s r. m s = Some r \<longrightarrow> \<not> f64_gt (Score r) 0) \<longrightarrow> SelectBestCVSS m = None) \<and>
   SelectBestCVSS ghsa_redhat = Some ghsa_5 \<and> Score ghsa_5 = Finite 5.0"
proof -
  have none: "SelectBestCVSS m = None \<longleftrightarrow> (\<forall>s \<in> set CVSSPriority. \<not> usable m s)"
    by (simp only: SelectBestCVSS_def select_from_None)
  have empty: "m = Map.empty \<longrightarrow> SelectBestCVSS m = None"
    unfolding none by (simp add: usable_def)
  have nonpos: "(\<forall>s r. m s = Some r \<longrightarrow> \<not> f64_gt (Score r) 0) \<longrightarrow> SelectBestCVSS m = None"
    unfolding none by (auto simp: usable_def split: option.splits)
  have first: "SelectBestCVSS m = Some d \<longleftrightarrow>
      (\<exists>i < length CVSSPriority. m (CVSSPriority ! i) = Some d \<and> usable m (CVSSPriority ! i)
          \<and> (\<forall>j < i. \<not> usable m (CVSSPriority ! j)))"
    by (simp only: SelectBestCVSS_def select_from_first)
  have score: "Score ghsa_5 = Finite 5.0" by (simp add: ghsa_5_def)
  from CVSSPriority_value first none empty nonpos SelectBestCVSS_ghsa_redhat score
  show ?thesis by blast
qed

theorem SelectBestCVSS_first_usable_witness:
  "(\<exists>i < length CVSSPriority. ghsa_redhat (CVSSPriority ! i) = Some ghsa_5
       \<and> usable ghsa_redhat (CVSSPriority ! i)
       \<and> (\<forall>j < i. \<not> usable ghsa_redhat (CVSSPriority ! j))) \<and>
   SelectBestCVSS Map.empty = None \<and>
   \<not> usable Map.empty ''nvd''"
proof -
  have a: "SelectBestCVSS ghsa_redhat = Some ghsa_5"
    using SelectBestCVSS_first_usable [of ghsa_redhat ghsa_5] by blast
  have b: "SelectBestCVSS Map.empty = None"
    using SelectBestCVSS_first_usable [of Map.empty ghsa_5] by blast
  have mem: "''nvd'' \<in> set CVSSPriority"
    by (simp add: CVSSPriority_value)
  have "\<forall>s \<in> set CVSSPriority. \<not> usable Map.empty s"
    using b SelectBestCVSS_first_usable [of Map.empty ghsa_5] by blast
  with mem have c: "\<not> usable Map.empty ''nvd''" by blast
  from a b c SelectBestCVSS_first_usable [of ghsa_redhat ghsa_5]
  show ?thesis by blast
qed

section \<open>Severity from a score\<close>

text \<open>
  Claim C7. Every score falls in exactly one of five bands, and \<^verbatim>\<open>SeverityFromCVSS\<close> maps the
  band to its level: critical from 9.0, high from 7.0 and below 9.0, medium from 4.0 and
  below 7.0, low above 0 and below 4.0, and info for every other score (0, a negative score,
  NaN). At the boundaries: 9.0 gives critical, 8.999 and 7.0 give high, 6.999 and 4.0 give
  medium, 3.999 and 0.001 give low, 0 and a negative score give info.
\<close>

theorem SeverityFromCVSS_bands:
  "(f64_ge s 9.0 \<longrightarrow> SeverityFromCVSS s = ''critical'') \<and>
   (f64_ge s 7.0 \<and> f64_lt s 9.0 \<longrightarrow> SeverityFromCVSS s = ''high'') \<and>
   (f64_ge s 4.0 \<and> f64_lt s 7.0 \<longrightarrow> SeverityFromCVSS s = ''medium'') \<and>
   (f64_gt s 0 \<and> f64_lt s 4.0 \<longrightarrow> SeverityFromCVSS s = ''low'') \<and>
   (\<not> f64_gt s 0 \<longrightarrow> SeverityFromCVSS s = ''info'') \<and>
   (f64_ge s 9.0 \<or> f64_ge s 7.0 \<and> f64_lt s 9.0 \<or> f64_ge s 4.0 \<and> f64_lt s 7.0
      \<or> f64_gt s 0 \<and> f64_lt s 4.0 \<or> \<not> f64_gt s 0) \<and>
   SeverityFromCVSS (Finite 9.0) = ''critical'' \<and>
   SeverityFromCVSS (Finite 8.999) = ''high'' \<and>
   SeverityFromCVSS (Finite 7.0) = ''high'' \<and>
   SeverityFromCVSS (Finite 6.999) = ''medium'' \<and>
   SeverityFromCVSS (Finite 4.0) = ''medium'' \<and>
   SeverityFromCVSS (Finite 3.999) = ''low'' \<and>
   SeverityFromCVSS (Finite 0.001) = ''low'' \<and>
   SeverityFromCVSS (Finite 0) = ''info'' \<and>
   SeverityFromCVSS (Finite (- 2.5)) = ''info'' \<and>
   SeverityFromCVSS NaN = ''info''"
proof -
  have bands: "(f64_ge s 9.0 \<longrightarrow> SeverityFromCVSS s = ''critical'') \<and>
   (f64_ge s 7.0 \<and> f64_lt s 9.0 \<longrightarrow> SeverityFromCVSS s = ''high'') \<and>
   (f64_ge s 4.0 \<and> f64_lt s 7.0 \<longrightarrow> SeverityFromCVSS s = ''medium'') \<and>
   (f64_gt s 0 \<and> f64_lt s 4.0 \<longrightarrow> SeverityFromCVSS s = ''low'') \<and>
   (\<not> f64_gt s 0 \<longrightarrow> SeverityFromCVSS s = ''info'')"
    by (cases s) (auto simp: SeverityFromCVSS_def)
  have cover: "f64_ge s 9.0 \<or> f64_ge s 7.0 \<and> f64_lt s 9.0 \<or> f64_ge s 4.0 \<and> f64_lt s 7.0
      \<or> f64_gt s 0 \<and> f64_lt s 4.0 \<or> \<not> f64_gt s 0"
    by (cases s) auto
  have points: "SeverityFromCVSS (Finite 9.0) = ''critical''"
    "SeverityFromCVSS (Finite 8.999) = ''high''" "SeverityFromCVSS (Finite 7.0) = ''high''"
    "SeverityFromCVSS (Finite 6.999) = ''medium''" "SeverityFromCVSS (Finite 4.0) = ''medium''"
    "SeverityFromCVSS (Finite 3.999) = ''low''" "SeverityFromCVSS (Finite 0.001) = ''low''"
    "SeverityFromCVSS (Finite 0) = ''info''" "SeverityFromCVSS (Finite (- 2.5)) = ''info''"
    "SeverityFromCVSS NaN = ''info''"
    by (simp_all add: SeverityFromCVSS_def)
  from bands cover points show ?thesis by (intro conjI) blast+
qed

theorem SeverityFromCVSS_bands_witness:
  "f64_ge (Finite 7.5) 7.0 \<and> f64_lt (Finite 7.5) 9.0 \<and> SeverityFromCVSS (Finite 7.5) = ''high'' \<and>
   f64_ge PosInf 9.0 \<and> SeverityFromCVSS PosInf = ''critical'' \<and>
   f64_gt (Finite 2) 0 \<and> f64_lt (Finite 2) 4.0 \<and> SeverityFromCVSS (Finite 2) = ''low'' \<and>
   \<not> f64_gt NegInf 0 \<and> SeverityFromCVSS NegInf = ''info''"
  using SeverityFromCVSS_bands [of "Finite 7.5"] SeverityFromCVSS_bands [of PosInf]
    SeverityFromCVSS_bands [of "Finite 2"] SeverityFromCVSS_bands [of NegInf]
  by simp

section \<open>Fingerprints\<close>

lemma digit_value_char_of: "d < 10 \<Longrightarrow> digit_value (char_of (48 + d)) = d"
  by (simp add: digit_value_def)

lemma decimal_value_snoc: "decimal_value (s @ [c]) = 10 * decimal_value s + digit_value c"
  by (simp add: decimal_value_def)

lemma decimal_value_decimal: "decimal_value (decimal n) = n"
proof (induction n rule: decimal.induct)
  case (1 n)
  show ?case
  proof (cases "n < 10")
    case True
    then show ?thesis by (simp add: decimal.simps [of n] decimal_value_def digit_value_char_of)
  next
    case False
    then have "decimal n = decimal (n div 10) @ [char_of (48 + n mod 10)]"
      by (simp add: decimal.simps [of n])
    then have "decimal_value (decimal n) = 10 * decimal_value (decimal (n div 10)) + n mod 10"
      by (simp only: decimal_value_snoc) (simp add: digit_value_char_of)
    with 1 False show ?thesis by simp
  qed
qed

lemma hi_nibble: "unat (drop_bit 4 (v::uint8)) < 16"
proof -
  have "unat v < 2 ^ 8" using unsigned_less[of v] by simp
  then have "unat v div 16 < 16" by simp
  then show ?thesis by (simp add: drop_bit_eq_div unat_div)
qed

lemma lo_nibble: "unat ((v::uint8) AND 0x0f) < 16"
proof -
  have "v AND 0x0f = take_bit 4 v"
    using take_bit_eq_mask[of 4 v] by (simp add: mask_eq_exp_minus_1)
  then show ?thesis by (simp add: take_bit_eq_mod unat_mod)
qed

lemma length_state_bytes: "length (state_bytes st) = 32"
  by (induction st rule: state_bytes.induct) (simp add: be_bytes32_def)

lemma length_EncodeToString: "length (EncodeToString src) = 2 * length src"
  by (induction src) (simp_all add: EncodeToString_def)

lemma hex_EncodeToString: "list_all (\<lambda>c. c \<in> set hextable) (EncodeToString src)"
proof -
  have len: "length hextable = 16" by (simp add: hextable_def)
  show ?thesis
    by (induction src) (simp_all add: EncodeToString_def len hi_nibble lo_nibble)
qed

lemma length_hashString: "length (hashString s) = 64"
  by (simp add: hashString_def length_EncodeToString Sum256_def length_state_bytes)

lemma hex_hashString: "list_all (\<lambda>c. c \<in> set ''0123456789abcdef'') (hashString s)"
  using hex_EncodeToString [of "Sum256 (bytes_of s)"] by (simp add: hashString_def hextable_def)

text \<open>
  Digests computed by the definitions above, step by step in the logic. The values are those
  of SHA-256: \<open>printf '%s' 'src/main.go:G101:42' | sha256sum\<close> prints the first one.
\<close>

lemma hashString_sast_example:
  "hashString ''src/main.go:G101:42'' =
     ''e8b5213d23e8a0fb1f16e90bdb633e6844c5ab5213340753da525ef451dbaa77''"
  by code_simp

lemma hashString_sast_colons:
  "hashString ''a:b:c:1'' =
     ''4f5b2fc286a5d623c46f4bb3d2723d73ee93b8a771ce3a930414709109dd673e''"
  by code_simp

lemma hashString_sca_example:
  "hashString ''lodash:4.17.20:CVE-2021-23337'' =
     ''7e7e80407091e50ca44876468c6b613d545d7591002c6005642c86487bb843a9''"
  by code_simp

lemma hashString_secret_value:
  "hashString ''hunter2'' =
     ''f52fbd32b2b3b86ff88ef6c490628285f482af15ddcb29541f94bcf526a3f6c7''"
  by code_simp

lemma hashString_secret_example:
  "hashString ''src/main.go:G101:42:f52fbd32'' =
     ''f77d8ac5aabe191fdb025c82e14fabc09e2517ce3e94621d40b9e80da608e924''"
  by code_simp

lemma fmt_d_points:
  "fmt_d 42 = ''42''" "fmt_d (- 7) = ''-7''" "fmt_d 0 = ''0''" "fmt_d 1 = ''1''"
  by code_simp+

lemma GenerateSastFingerprint_example:
  "GenerateSastFingerprint ''src/main.go'' ''G101'' 42 =
     ''e8b5213d23e8a0fb1f16e90bdb633e6844c5ab5213340753da525ef451dbaa77''"
  using hashString_sast_example by (simp add: GenerateSastFingerprint_def fmt_d_points)

lemma GenerateSastFingerprint_colons:
  "GenerateSastFingerprint ''a:b'' ''c'' 1 =
     ''4f5b2fc286a5d623c46f4bb3d2723d73ee93b8a771ce3a930414709109dd673e''"
  using hashString_sast_colons by (simp add: GenerateSastFingerprint_def fmt_d_points)

lemma GenerateScaFingerprint_example:
  "GenerateScaFingerprint ''lodash'' ''4.17.20'' ''CVE-2021-23337'' =
     ''7e7e80407091e50ca44876468c6b613d545d7591002c6005642c86487bb843a9''"
  using hashString_sca_example by (simp add: GenerateScaFingerprint_def)

lemma secret_prefix_example: "take 8 (hashString ''hunter2'') = ''f52fbd32''"
  by (simp add: hashString_secret_value)

lemma GenerateSecretFingerprint_example:
  "GenerateSecretFingerprint ''src/main.go'' ''G101'' 42 ''hunter2'' =
     ''f77d8ac5aabe191fdb025c82e14fabc09e2517ce3e94621d40b9e80da608e924''"
  using hashString_secret_example
  by (simp add: GenerateSecretFingerprint_def fmt_d_points secret_prefix_example)

text \<open>
  Claim C5. Each fingerprint is the hexadecimal encoding of the SHA-256 digest of the fields
  joined by a colon: \<open>file:ruleID:startLine\<close> for a static-analysis finding,
  \<open>pkgName:pkgVersion:vulnID\<close> for a dependency and \<open>file:ruleID:startLine:prefix\<close> for a
  secret, where \<open>prefix\<close> is the first 8 characters of the hexadecimal SHA-256 digest of the
  secret value. The line number is written in decimal. Every fingerprint has 64 characters,
  all of them hexadecimal digits, and the prefix has 8. The fingerprints are functions of
  their arguments alone: equal arguments give equal fingerprints. On concrete findings the
  fingerprints are the SHA-256 digests of the joined strings: \<open>e8b5213d...\<close> for
  \<open>src/main.go:G101:42\<close>, \<open>4f5b2fc2...\<close> for \<open>a:b:c:1\<close>, \<open>7e7e8040...\<close> for
  \<open>lodash:4.17.20:CVE-2021-23337\<close>, and \<open>f77d8ac5...\<close> for the secret \<open>hunter2\<close> at
  \<open>src/main.go:G101:42\<close>, whose prefix is \<open>f52fbd32\<close>; different findings get different
  fingerprints there.
\<close>

theorem fingerprints_canonical:
  "GenerateSastFingerprint file ruleID startLine =
     EncodeToString (Sum256 (bytes_of (file @ '':'' @ ruleID @ '':'' @ fmt_d startLine))) \<and>
   GenerateScaFingerprint pkgName pkgVersion vulnID =
     EncodeToString (Sum256 (bytes_of (pkgName @ '':'' @ pkgVersion @ '':'' @ vulnID))) \<and>
   GenerateSecretFingerprint file ruleID startLine secretValue =
     EncodeToString (Sum256 (bytes_of (file @ '':'' @ ruleID @ '':'' @ fmt_d startLine @ '':'' @
        take 8 (EncodeToString (Sum256 (bytes_of secretValue)))))) \<and>
   length (take 8 (EncodeToString (Sum256 (bytes_of secretValue)))) = 8 \<and>
   length (GenerateSastFingerprint file ruleID startLine) = 64 \<and>
   length (GenerateScaFingerprint pkgName pkgVersion vulnID) = 64 \<and>
   length (GenerateSecretFingerprint file ruleID startLine secretValue) = 64 \<and>
   list_all (\<lambda>c. c \<in> set ''0123456789abcdef'') (GenerateSastFingerprint file ruleID startLine) \<and>
   list_all (\<lambda>c. c \<in> set ''0123456789abcdef'') (GenerateScaFingerprint pkgName pkgVersion vulnID) \<and>
   list_all (\<lambda>c. c \<in> set ''0123456789abcdef'')
     (GenerateSecretFingerprint file ruleID startLine secretValue) \<and>
   (0 \<le> startLine \<longrightarrow> decimal_value (fmt_d startLine) = nat startLine) \<and>
   fmt_d 42 = ''42'' \<and> fmt_d (- 7) = ''-7'' \<and>
   (file = file' \<and> ruleID = ruleID' \<and> startLine = startLine' \<and> secretValue = secretValue' \<longrightarrow>
      GenerateSastFingerprint file ruleID startLine = GenerateSastFingerprint file' ruleID' startLine' \<and>
      GenerateSecretFingerprint file ruleID startLine secretValue =
        GenerateSecretFingerprint file' ruleID' startLine' secretValue') \<and>
   (pkgName = pkgName' \<and> pkgVersion = pkgVersion' \<and> vulnID = vulnID' \<longrightarrow>
      GenerateScaFingerprint pkgName pkgVersion vulnID =
        GenerateScaFingerprint pkgName' pkgVersion' vulnID') \<and>
   GenerateSastFingerprint ''src/main.go'' ''G101'' 42 =
     ''e8b5213d23e8a0fb1f16e90bdb633e6844c5ab5213340753da525ef451dbaa77'' \<and>
   GenerateSastFingerprint ''a:b'' ''c'' 1 =
     ''4f5b2fc286a5d623c46f4bb3d2723d73ee93b8a771ce3a930414709109dd673e'' \<and>
   GenerateScaFingerprint ''lodash'' ''4.17.20'' ''CVE-2021-23337'' =
     ''7e7e80407091e50ca44876468c6b613d545d7591002c6005642c86487bb843a9'' \<and>
   take 8 (EncodeToString (Sum256 (bytes_of ''hunter2''))) = ''f52fbd32'' \<and>
   GenerateSecretFingerprint ''src/main.go'' ''G101'' 42 ''hunter2'' =
     ''f77d8ac5aabe191fdb025c82e14fabc09e2517ce3e94621d40b9e80da608e924'' \<and>
   GenerateSastFingerprint ''src/main.go'' ''G101'' 42 \<noteq> GenerateSastFingerprint ''a:b'' ''c'' 1 \<and>
   GenerateSastFingerprint ''src/main.go'' ''G101'' 42 \<noteq>
     GenerateSecretFingerprint ''src/main.go'' ''G101'' 42 ''hunter2''"
proof -
  have sast: "GenerateSastFingerprint file ruleID startLine =
      hashString (file @ '':'' @ ruleID @ '':'' @ fmt_d startLine)"
    by (simp add: GenerateSastFingerprint_def)
  have sca: "GenerateScaFingerprint pkgName pkgVersion vulnID =
      hashString (pkgName @ '':'' @ pkgVersion @ '':'' @ vulnID)"
    by (simp add: GenerateScaFingerprint_def)
  have secret: "GenerateSecretFingerprint file ruleID startLine secretValue =
      hashString (file @ '':'' @ ruleID @ '':'' @ fmt_d startLine @ '':'' @
        take 8 (hashString secretValue))"
    by (simp add: GenerateSecretFingerprint_def)
  have prefix8: "length (take 8 (EncodeToString (Sum256 (bytes_of secretValue)))) = 8"
    using length_hashString [of secretValue] by (simp add: hashString_def)
  have dec: "0 \<le> startLine \<longrightarrow> decimal_value (fmt_d startLine) = nat startLine"
    by (simp add: fmt_d_def decimal_value_decimal)
  have c1: "GenerateSastFingerprint file ruleID startLine =
     EncodeToString (Sum256 (bytes_of (file @ '':'' @ ruleID @ '':'' @ fmt_d startLine)))"
    by (simp only: sast hashString_def)
  have c2: "GenerateScaFingerprint pkgName pkgVersion vulnID =
     EncodeToString (Sum256 (bytes_of (pkgName @ '':'' @ pkgVersion @ '':'' @ vulnID)))"
    by (simp only: sca hashString_def)
  have c3: "GenerateSecretFingerprint file ruleID startLine secretValue =
     EncodeToString (Sum256 (bytes_of (file @ '':'' @ ruleID @ '':'' @ fmt_d startLine @ '':'' @
        take 8 (EncodeToString (Sum256 (bytes_of secretValue))))))"
    by (simp only: secret hashString_def)
  have l1: "length (GenerateSastFingerprint file ruleID startLine) = 64"
    by (simp only: sast length_hashString)
  have l2: "length (GenerateScaFingerprint pkgName pkgVersion vulnID) = 64"
    by (simp only: sca length_hashString)
  have l3: "length (GenerateSecretFingerprint file ruleID startLine secretValue) = 64"
    by (simp only: secret length_hashString)
  have h1: "list_all (\<lambda>c. c \<in> set ''0123456789abcdef'') (GenerateSastFingerprint file ruleID startLine)"
    unfolding sast by (rule hex_hashString)
  have h2: "list_all (\<lambda>c. c \<in> set ''0123456789abcdef'') (GenerateScaFingerprint pkgName pkgVersion vulnID)"
    unfolding sca by (rule hex_hashString)
  have h3: "list_all (\<lambda>c. c \<in> set ''0123456789abcdef'')
     (GenerateSecretFingerprint file ruleID startLine secretValue)"
    unfolding secret by (rule hex_hashString)
  have same: "file = file' \<and> ruleID = ruleID' \<and> startLine = startLine' \<and> secretValue = secretValue' \<longrightarrow>
      GenerateSastFingerprint file ruleID startLine = GenerateSastFingerprint file' ruleID' startLine' \<and>
      GenerateSecretFingerprint file ruleID startLine secretValue =
        GenerateSecretFingerprint file' ruleID' startLine' secretValue'"
    by blast
  have same_sca: "pkgName = pkgName' \<and> pkgVersion = pkgVersion' \<and> vulnID = vulnID' \<longrightarrow>
      GenerateScaFingerprint pkgName pkgVersion vulnID =
        GenerateScaFingerprint pkgName' pkgVersion' vulnID'"
    by blast
  note p42 = fmt_d_points(1) and m7 = fmt_d_points(2)
  note d1 = GenerateSastFingerprint_example and d2 = GenerateSastFingerprint_colons
    and d3 = GenerateScaFingerprint_example and d5 = GenerateSecretFingerprint_example
  have d4: "take 8 (EncodeToString (Sum256 (bytes_of ''hunter2''))) = ''f52fbd32''"
    using secret_prefix_example by (simp only: hashString_def)
  have n1: "GenerateSastFingerprint ''src/main.go'' ''G101'' 42 \<noteq>
      GenerateSastFingerprint ''a:b'' ''c'' 1"
    by (simp only: d1 d2) simp
  have n2: "GenerateSastFingerprint ''src/main.go'' ''G101'' 42 \<noteq>
     GenerateSecretFingerprint ''src/main.go'' ''G101'' 42 ''hunter2''"
    by (simp only: d1 d5) simp
  show ?thesis by (intro conjI; fact)
qed

theorem fingerprints_canonical_witness:
  "(0::int) \<le> 42 \<and> decimal_value (fmt_d 42) = 42 \<and>
   GenerateSastFingerprint ''src/main.go'' ''G101'' 42 =
     EncodeToString (Sum256 (bytes_of ''src/main.go:G101:42'')) \<and>
   EncodeToString (Sum256 (bytes_of ''src/main.go:G101:42'')) =
     ''e8b5213d23e8a0fb1f16e90bdb633e6844c5ab5213340753da525ef451dbaa77'' \<and>
   length (GenerateSastFingerprint ''src/main.go'' ''G101'' 42) = 64 \<and>
   length (GenerateSecretFingerprint ''src/main.go'' ''G101'' 42 ''hunter2'') = 64"
proof -
  note t = fingerprints_canonical [of "''src/main.go''" "''G101''" 42 "''pkg''" "''1.0''" "''CVE-1''"
      "''hunter2''" "''src/main.go''" "''G101''" 42 "''hunter2''" "''pkg''" "''1.0''" "''CVE-1''"]
  have f: "fmt_d 42 = ''42''" using t by (elim conjE)
  have "(0::int) \<le> 42 \<longrightarrow> decimal_value (fmt_d 42) = nat 42" using t by (elim conjE)
  then have a: "decimal_value (fmt_d 42) = 42" by simp
  have b: "GenerateSastFingerprint ''src/main.go'' ''G101'' 42 =
     EncodeToString (Sum256 (bytes_of (''src/main.go'' @ '':'' @ ''G101'' @ '':'' @ fmt_d 42)))"
    using t by (elim conjE)
  have c: "length (GenerateSastFingerprint ''src/main.go'' ''G101'' 42) = 64"
    using t by (elim conjE)
  have d: "length (GenerateSecretFingerprint ''src/main.go'' ''G101'' 42 ''hunter2'') = 64"
    using t by (elim conjE)
  have v: "GenerateSastFingerprint ''src/main.go'' ''G101'' 42 =
     ''e8b5213d23e8a0fb1f16e90bdb633e6844c5ab5213340753da525ef451dbaa77''"
    using t by (elim conjE)
  from b have b': "GenerateSastFingerprint ''src/main.go'' ''G101'' 42 =
     EncodeToString (Sum256 (bytes_of ''src/main.go:G101:42''))"
    by (simp only: f) simp
  from b' v have e: "EncodeToString (Sum256 (bytes_of ''src/main.go:G101:42'')) =
     ''e8b5213d23e8a0fb1f16e90bdb633e6844c5ab5213340753da525ef451dbaa77''"
    by simp
  from a b' c d e show ?thesis by simp
qed

section \<open>Colons inside fingerprint fields\<close>

text \<open>
  Claim C10. The fields are joined without escaping, so a colon can move from the
  delimiter into a field: the distinct argument tuples \<open>("a:b", "c", 1)\<close> and
  \<open>("a", "b:c", 1)\<close> are hashed through the same string and get the same static-analysis
  fingerprint, and likewise \<open>("a:b", "c", "v")\<close> and \<open>("a", "b:c", "v")\<close> for the dependency
  fingerprint. The same holds for any fields in place of \<open>a\<close>, \<open>b\<close>, \<open>c\<close>.
\<close>

theorem fingerprint_colon_collision:
  "(''a:b'', ''c'', 1::int) \<noteq> (''a'', ''b:c'', 1) \<and>
   ''a:b'' @ '':'' @ ''c'' @ '':'' @ fmt_d 1 = ''a'' @ '':'' @ ''b:c'' @ '':'' @ fmt_d 1 \<and>
   GenerateSastFingerprint ''a:b'' ''c'' 1 = GenerateSastFingerprint ''a'' ''b:c'' 1 \<and>
   (''a:b'', ''c'', ''v'') \<noteq> (''a'', ''b:c'', ''v'') \<and>
   GenerateScaFingerprint ''a:b'' ''c'' ''v'' = GenerateScaFingerprint ''a'' ''b:c'' ''v'' \<and>
   GenerateSastFingerprint (a @ '':'' @ b) c n = GenerateSastFingerprint a (b @ '':'' @ c) n \<and>
   GenerateScaFingerprint (a @ '':'' @ b) c v = GenerateScaFingerprint a (b @ '':'' @ c) v"
  by (simp add: GenerateSastFingerprint_def GenerateScaFingerprint_def)

section \<open>Severity labels\<close>

lemma trim_stop_ascii: "isASCII r \<Longrightarrow> trim_stop U r = rev (dropWhile asciiSpace r)"
  by (induction r) (auto simp: isASCII_def)

lemma isASCII_rev: "isASCII (rev s) = isASCII s"
  by (simp add: isASCII_def list_all_iff)

lemma TrimSpace_ascii: "isASCII s \<Longrightarrow> TrimSpace U s = trimmed s"
proof (induction s)
  case Nil
  then show ?case by (simp add: trimmed_def)
next
  case (Cons c s)
  then have c: "\<not> RuneSelf \<le> byte c" and s: "isASCII s" by (auto simp: isASCII_def)
  show ?case
  proof (cases "asciiSpace c")
    case True
    with c Cons.IH [OF s] show ?thesis by (simp add: trimmed_def)
  next
    case False
    have "isASCII (rev (c # s))" using Cons.prems by (simp only: isASCII_rev)
    then have "trim_stop U (rev (c # s)) = rev (dropWhile asciiSpace (rev (c # s)))"
      by (rule trim_stop_ascii)
    with c False show ?thesis by (simp add: trimmed_def)
  qed
qed

lemma isASCII_trimmed: "isASCII s \<Longrightarrow> isASCII (trimmed s)"
  by (auto simp: isASCII_def trimmed_def list_all_iff dest!: set_dropWhileD)

lemma ToUpper_TrimSpace_ascii: "isASCII s \<Longrightarrow> ToUpper U (TrimSpace U s) = upper (trimmed s)"
  by (simp add: TrimSpace_ascii ToUpper_def isASCII_trimmed upper_def)

lemma NormalizeSeverity_range:
  "NormalizeSeverity U s \<in> {''critical'', ''high'', ''medium'', ''low'', ''info''}"
  by (simp add: NormalizeSeverity_def Let_def)

lemma NormalizeSeverity_table:
  "(ToUpper U (TrimSpace U s) = ''CRITICAL'' \<longrightarrow> NormalizeSeverity U s = ''critical'') \<and>
   (ToUpper U (TrimSpace U s) \<in> {''HIGH'', ''ERROR''} \<longrightarrow> NormalizeSeverity U s = ''high'') \<and>
   (ToUpper U (TrimSpace U s) \<in> {''MEDIUM'', ''MODERATE'', ''WARNING''} \<longrightarrow>
      NormalizeSeverity U s = ''medium'') \<and>
   (ToUpper U (TrimSpace U s) = ''LOW'' \<longrightarrow> NormalizeSeverity U s = ''low'') \<and>
   (ToUpper U (TrimSpace U s) \<in> {''INFO'', ''INFORMATIONAL'', ''NOTE''} \<longrightarrow>
      NormalizeSeverity U s = ''info'') \<and>
   (ToUpper U (TrimSpace U s) \<notin> {''CRITICAL'', ''HIGH'', ''ERROR'', ''MEDIUM'', ''MODERATE'',
        ''WARNING'', ''LOW'', ''INFO'', ''INFORMATIONAL'', ''NOTE''} \<longrightarrow>
      NormalizeSeverity U s = ''info'')"
  by (simp add: NormalizeSeverity_def Let_def)

lemma NormalizeSeverity_points:
  "NormalizeSeverity U ''Warning'' = ''medium''" "NormalizeSeverity U [] = ''info''"
  "NormalizeSeverity U ''CRITICAL'' = ''critical''" "NormalizeSeverity U ''  hiGh '' = ''high''"
  by code_simp+

text \<open>
  Claim C8. \<^verbatim>\<open>NormalizeSeverity\<close> is total: every string is mapped to one of the five levels.
  The level is found from the input with its surrounding white space removed and its
  letters in upper case: CRITICAL gives critical, HIGH and ERROR give high, MEDIUM, MODERATE
  and WARNING give medium, LOW gives low, INFO, INFORMATIONAL and NOTE give info, and every
  other string, the empty one included, gives info. For an ASCII input, removing the white
  space and changing the case are the byte-wise operations \<open>trimmed\<close> and \<open>upper\<close>; in
  particular \<open>Warning\<close> gives medium, the empty string info and \<open>CRITICAL\<close> critical.
\<close>

theorem NormalizeSeverity_total:
  "NormalizeSeverity U s \<in> {''critical'', ''high'', ''medium'', ''low'', ''info''} \<and>
   (ToUpper U (TrimSpace U s) = ''CRITICAL'' \<longrightarrow> NormalizeSeverity U s = ''critical'') \<and>
   (ToUpper U (TrimSpace U s) \<in> {''HIGH'', ''ERROR''} \<longrightarrow> NormalizeSeverity U s = ''high'') \<and>
   (ToUpper U (TrimSpace U s) \<in> {''MEDIUM'', ''MODERATE'', ''WARNING''} \<longrightarrow>
      NormalizeSeverity U s = ''medium'') \<and>
   (ToUpper U (TrimSpace U s) = ''LOW'' \<longrightarrow> NormalizeSeverity U s = ''low'') \<and>
   (ToUpper U (TrimSpace U s) \<in> {''INFO'', ''INFORMATIONAL'', ''NOTE''} \<longrightarrow>
      NormalizeSeverity U s = ''info'') \<and>
   (ToUpper U (TrimSpace U s) \<notin> {''CRITICAL'', ''HIGH'', ''ERROR'', ''MEDIUM'', ''MODERATE'',
        ''WARNING'', ''LOW'', ''INFO'', ''INFORMATIONAL'', ''NOTE''} \<longrightarrow>
      NormalizeSeverity U s = ''info'') \<and>
   (isASCII s \<longrightarrow> ToUpper U (TrimSpace U s) = upper (trimmed s)) \<and>
   NormalizeSeverity U ''Warning'' = ''medium'' \<and>
   NormalizeSeverity U [] = ''info'' \<and>
   NormalizeSeverity U ''CRITICAL'' = ''critical''"
proof -
  have ascii: "isASCII s \<longrightarrow> ToUpper U (TrimSpace U s) = upper (trimmed s)"
    by (simp add: ToUpper_TrimSpace_ascii)
  show ?thesis
    using NormalizeSeverity_range [of U s] NormalizeSeverity_table [of U s] ascii
      NormalizeSeverity_points(1-3) [of U]
    by (elim conjE, intro conjI)
qed

theorem NormalizeSeverity_total_witness:
  "\<forall>U. isASCII '' moderate  '' \<and> upper (trimmed '' moderate  '') = ''MODERATE'' \<and>
     ToUpper U (TrimSpace U '' moderate  '') \<in> {''MEDIUM'', ''MODERATE'', ''WARNING''} \<and>
     NormalizeSeverity U '' moderate  '' = ''medium''"
proof
  fix U
  note t = NormalizeSeverity_total [of U "'' moderate  ''"]
  have a: "isASCII '' moderate  ''" by code_simp
  have b: "upper (trimmed '' moderate  '') = ''MODERATE''" by code_simp
  from t a have "ToUpper U (TrimSpace U '' moderate  '') = upper (trimmed '' moderate  '')"
    by (elim conjE) (rule mp)
  with b have c: "ToUpper U (TrimSpace U '' moderate  '') \<in> {''MEDIUM'', ''MODERATE'', ''WARNING''}"
    by simp
  from t c have d: "NormalizeSeverity U '' moderate  '' = ''medium''"
    by (elim conjE) (rule mp)
  from a b c d
  show "isASCII '' moderate  '' \<and> upper (trimmed '' moderate  '') = ''MODERATE'' \<and>
     ToUpper U (TrimSpace U '' moderate  '') \<in> {''MEDIUM'', ''MODERATE'', ''WARNING''} \<and>
     NormalizeSeverity U '' moderate  '' = ''medium''"
    by (intro conjI)
qed

section \<open>Package type detection\<close>

lemma Contains_sublist: "Contains s sub = sublist sub s"
  by (induction s) (simp_all add: sublist_Cons_right)

lemma find_fst_step:
  "(case find P (e # es) of Some entry \<Rightarrow> fst entry | None \<Rightarrow> [])
   = (if P e then fst e else (case find P es of Some entry \<Rightarrow> fst entry | None \<Rightarrow> []))"
  by simp

lemma find_fst_empty:
  "list_all (\<lambda>e. fst e \<noteq> []) es \<Longrightarrow>
   ((case find P es of Some entry \<Rightarrow> fst entry | None \<Rightarrow> []) = []) = (\<not> list_ex P es)"
  by (induction es) auto

lemma DetectPackageType_find:
  "DetectPackageType U f =
    (case find (marker_occurs (ToLower U f)) manifest_markers of
       Some entry \<Rightarrow> fst entry | None \<Rightarrow> [])"
  unfolding DetectPackageType_def Let_def manifest_markers_def Contains_sublist
      PackageTypeMaven_def PackageTypeNPM_def PackageTypePyPI_def PackageTypeGo_def
      PackageTypeCargo_def PackageTypeNuGet_def PackageTypeGem_def PackageTypeComposer_def
  by (simp only: find_fst_step marker_occurs_def list_ex_Nil_iff list_ex_Cons_iff snd_conv
      fst_conv find.simps(1) option.case simp_thms)

lemma DetectPackageType_range:
  "DetectPackageType U f \<in> {PackageTypeMaven, PackageTypeNPM, PackageTypePyPI, PackageTypeGo,
     PackageTypeCargo, PackageTypeNuGet, PackageTypeGem, PackageTypeComposer, []}"
  unfolding DetectPackageType_def Let_def
  by (simp only: if_split insert_iff simp_thms split: if_split)

lemma DetectPackageType_fold:
  "isASCII f \<and> isASCII g \<and> lower f = lower g \<longrightarrow> DetectPackageType U f = DetectPackageType U g"
  by (simp add: DetectPackageType_def ToLower_def lower_def)

lemma DetectPackageType_empty:
  "(DetectPackageType U f = []) = (\<not> list_ex (marker_occurs (ToLower U f)) manifest_markers)"
proof -
  have "list_all (\<lambda>e. fst e \<noteq> []) manifest_markers"
    by (simp add: manifest_markers_def)
  then show ?thesis
    by (simp only: DetectPackageType_find find_fst_empty)
qed

lemma DetectPackageType_points:
  "DetectPackageType U ''backend/go.sum'' = PackageTypeGo" "PackageTypeGo = ''gomod''"
  "DetectPackageType U ''README.md'' = []"
  by code_simp+

text \<open>
  Claim C9. \<^verbatim>\<open>DetectPackageType\<close> is total and returns one of the eight package type
  identifiers or the empty string. It puts the file name in lower case and returns the
  identifier of the first entry of the marker table one of whose marker names occurs in it
  as a substring, and the empty string exactly when no marker name occurs. For ASCII file
  names the lower case is byte-wise and two names that differ only in case get the same
  answer. \<open>backend/go.sum\<close> gives the identifier of Go modules, whose value is the string
  \<open>gomod\<close>, and \<open>README.md\<close> gives the empty string.
\<close>

theorem DetectPackageType_markers:
  "DetectPackageType U f \<in> {PackageTypeMaven, PackageTypeNPM, PackageTypePyPI, PackageTypeGo,
     PackageTypeCargo, PackageTypeNuGet, PackageTypeGem, PackageTypeComposer, []} \<and>
   DetectPackageType U f =
     (case find (marker_occurs (ToLower U f)) manifest_markers of
        Some entry \<Rightarrow> fst entry | None \<Rightarrow> []) \<and>
   (DetectPackageType U f = []) = (\<not> list_ex (marker_occurs (ToLower U f)) manifest_markers) \<and>
   (isASCII f \<longrightarrow> ToLower U f = lower f) \<and>
   (isASCII f \<and> isASCII g \<and> lower f = lower g \<longrightarrow>
      DetectPackageType U f = DetectPackageType U g) \<and>
   DetectPackageType U ''backend/go.sum'' = PackageTypeGo \<and>
   PackageTypeGo = ''gomod'' \<and>
   DetectPackageType U ''README.md'' = []"
proof -
  have low: "isASCII f \<longrightarrow> ToLower U f = lower f"
    by (simp add: ToLower_def lower_def)
  show ?thesis
    using DetectPackageType_range [of U f] DetectPackageType_find [of U f]
      DetectPackageType_empty [of U f] low DetectPackageType_fold [where f = f and g = g and U = U]
      DetectPackageType_points(1) [of U] DetectPackageType_points(2) DetectPackageType_points(3) [of U]
    by (intro conjI)
qed

theorem DetectPackageType_markers_witness:
  "\<forall>U. isASCII ''svc/Cargo.TOML'' \<and> isASCII ''svc/cargo.toml'' \<and>
     lower ''svc/Cargo.TOML'' = lower ''svc/cargo.toml'' \<and>
     DetectPackageType U ''svc/Cargo.TOML'' = DetectPackageType U ''svc/cargo.toml'' \<and>
     ToLower U ''svc/Cargo.TOML'' = lower ''svc/Cargo.TOML''"
proof
  fix U
  note t = DetectPackageType_markers [of U "''svc/Cargo.TOML''" "''svc/cargo.toml''"]
  have a: "isASCII ''svc/Cargo.TOML''" "isASCII ''svc/cargo.toml''"
    "lower ''svc/Cargo.TOML'' = lower ''svc/cargo.toml''"
    by code_simp+
  from t a have b: "DetectPackageType U ''svc/Cargo.TOML'' = DetectPackageType U ''svc/cargo.toml''"
    by blast
  from t a have c: "ToLower U ''svc/Cargo.TOML'' = lower ''svc/Cargo.TOML''"
    by blast
  from a b c
  show "isASCII ''svc/Cargo.TOML'' \<and> isASCII ''svc/cargo.toml'' \<and>
     lower ''svc/Cargo.TOML'' = lower ''svc/cargo.toml'' \<and>
     DetectPackageType U ''svc/Cargo.TOML'' = DetectPackageType U ''svc/cargo.toml'' \<and>
     ToLower U ''svc/Cargo.TOML'' = lower ''svc/Cargo.TOML''"
    by (intro conjI)
qed

section \<open>Capturing a stream\<close>

lemma split_after_parts:
  "split_after d s = (l, r) \<Longrightarrow> s = l @ (case r of None \<Rightarrow> [] | Some t \<Rightarrow> t)"
  by (induction s arbitrary: l) (auto split: if_splits prod.splits)

lemma capture_loop_buffer: "fst (capture_loop r stream pfx acc) = fst acc @ fst r"
proof (induction r stream pfx acc rule: capture_loop.induct)
  case (1 r stream pfx buf console)
  obtain line rest where sp: "split_after newline (fst r) = (line, rest)"
    by (cases "split_after newline (fst r)")
  from split_after_parts [OF sp]
  have whole: "fst r = line @ (case rest of None \<Rightarrow> [] | Some t \<Rightarrow> t)" .
  show ?case
  proof (cases rest)
    case None
    with sp whole show ?thesis
      by (simp add: capture_loop.simps [of r] ReadBytes_def Let_def)
  next
    case (Some t)
    with sp have rb: "ReadBytes r newline = ((line, None), (t, snd r))"
      by (simp add: ReadBytes_def)
    define acc where "acc = (if 0 < length line
                      then (buf @ line,
                            if stream then console @ [''['' @ pfx @ ''] '' @ line] else console)
                      else (buf, console))"
    have step: "capture_loop r stream pfx (buf, console) = capture_loop (t, snd r) stream pfx acc"
      by (simp add: capture_loop.simps [of r] rb acc_def Let_def)
    have "fst (capture_loop (t, snd r) stream pfx acc) = fst acc @ fst (t, snd r)"
      using "1.IH" [OF rb [symmetric] refl acc_def refl] by simp
    moreover have "fst acc = buf @ line" by (simp add: acc_def)
    ultimately show ?thesis using step whole Some by simp
  qed
qed

lemma captureOutput_complete: "fst (captureOutput (bs, e) stream pfx) = bs"
  by (simp add: captureOutput_def capture_loop_buffer)

lemma Scan_tokens_overflow:
  "newline \<notin> set xs \<Longrightarrow> MaxScanTokenSize \<le> length cur + length xs \<Longrightarrow>
   length cur < MaxScanTokenSize \<Longrightarrow> Scan_tokens cur (xs @ rest) = []"
proof (induction xs arbitrary: cur)
  case Nil
  then show ?case by simp
next
  case (Cons x xs)
  show ?case
  proof (cases "MaxScanTokenSize \<le> length cur + 1")
    case True
    with Cons.prems show ?thesis by auto
  next
    case False
    with Cons.prems have "Scan_tokens (cur @ [x]) (xs @ rest) = []"
      by (intro Cons.IH) auto
    with False Cons.prems show ?thesis by auto
  qed
qed

lemma Scan_tokens_long_line_stream: "Scan_tokens [] long_line_stream = [''ok'']"
proof -
  have "Scan_tokens [] (replicate 65536 CHR ''a'' @ ([newline] @ ''lost'' @ [newline])) = []"
    by (rule Scan_tokens_overflow) (simp_all add: newline_def MaxScanTokenSize_def)
  then show ?thesis
    by (simp add: long_line_stream_def newline_def MaxScanTokenSize_def dropCR_def
        carriage_return_def)
qed

lemma stream_lines_first:
  "cur \<noteq> [] \<Longrightarrow> \<exists>l ls. stream_lines cur input = l # ls \<and> length cur \<le> length l"
proof (induction input arbitrary: cur)
  case Nil
  then show ?case by simp
next
  case (Cons c input)
  show ?case
  proof (cases "c = newline")
    case True
    then show ?thesis by simp
  next
    case False
    have "cur @ [c] \<noteq> []" by simp
    from Cons.IH [OF this] obtain l ls
      where "stream_lines (cur @ [c]) input = l # ls" "length (cur @ [c]) \<le> length l"
      by blast
    with False show ?thesis by auto
  qed
qed

lemma Scan_tokens_short_lines:
  "list_all (\<lambda>l. length l < MaxScanTokenSize) (stream_lines cur input) \<Longrightarrow>
   Scan_tokens cur input = map dropCR (stream_lines cur input)"
proof (induction input arbitrary: cur)
  case Nil
  then show ?case by simp
next
  case (Cons c input)
  show ?case
  proof (cases "c = newline")
    case True
    with Cons show ?thesis by simp
  next
    case False
    from stream_lines_first [of "cur @ [c]" input] obtain l ls
      where l: "stream_lines (cur @ [c]) input = l # ls" "length (cur @ [c]) \<le> length l"
      by auto
    with False Cons.prems have "length l < MaxScanTokenSize" by simp
    with l(2) have fits: "\<not> MaxScanTokenSize \<le> length cur + 1" by simp
    from False Cons.prems have "list_all (\<lambda>l. length l < MaxScanTokenSize)
        (stream_lines (cur @ [c]) input)" by simp
    from Cons.IH [OF this] False fits show ?thesis by simp
  qed
qed

lemma handler_loop_buffer:
  "fst (foldl (\<lambda>(buf, calls) line.
              (buf @ line @ [newline], if handler then calls @ [(line, isError)] else calls))
         (buf0, calls0) tokens)
   = buf0 @ concat (map (\<lambda>line. line @ [newline]) tokens)"
  by (induction tokens arbitrary: buf0 calls0) simp_all

lemma streamWithHandler_short_lines:
  "list_all (\<lambda>l. length l < MaxScanTokenSize) (stream_lines [] bs) \<Longrightarrow>
   fst (streamWithHandler (bs, e) handler isError) =
     concat (map (\<lambda>l. dropCR l @ [newline]) (stream_lines [] bs))"
  by (simp add: streamWithHandler_def handler_loop_buffer Scan_tokens_short_lines comp_def)

text \<open>
  Claim C4, evaluated on a stream with a line of 65536 bytes. \<^verbatim>\<open>captureOutput\<close> returns the
  whole stream, whatever the verbose flag and whatever error ended the reading.
  \<^verbatim>\<open>streamWithHandler\<close> returns the first line only: the long line fills the scanner's buffer,
  \<^verbatim>\<open>Scan()\<close> gives up, and the long line and every line after it are missing from the result.
\<close>

theorem streamWithHandler_loses_long_line:
  "fst (captureOutput (long_line_stream, EOF) stream pfx) = long_line_stream \<and>
   fst (captureOutput (long_line_stream, ReadFailed msg) stream pfx) = long_line_stream \<and>
   streamWithHandler (long_line_stream, EOF) True isError =
     (''ok'' @ [newline], [(''ok'', isError)]) \<and>
   fst (streamWithHandler (long_line_stream, EOF) handler isError) = ''ok'' @ [newline] \<and>
   length (fst (streamWithHandler (long_line_stream, EOF) handler isError)) = 3 \<and>
   length long_line_stream = 65545"
proof -
  have a: "streamWithHandler (long_line_stream, EOF) True isError =
     (''ok'' @ [newline], [(''ok'', isError)])"
    by (simp add: streamWithHandler_def Scan_tokens_long_line_stream)
  have b: "fst (streamWithHandler (long_line_stream, EOF) handler isError) = ''ok'' @ [newline]"
    by (simp add: streamWithHandler_def Scan_tokens_long_line_stream)
  have c: "length long_line_stream = 65545"
    by (simp add: long_line_stream_def)
  from a b c show ?thesis
    by (simp add: captureOutput_complete)
qed

section \<open>Running a scanner\<close>

lemmas example_defs = cfg_trivy_def os_with_def slow_child_def failing_child_def
  os_missing_binary_def os_slow_child_def os_failing_child_def

lemma captureOutput_fst: "fst (captureOutput r stream pfx) = fst r"
  by (cases r) (simp add: captureOutput_complete)

lemma make_result_fields:
  "DurationMs (make_result w a b err) = Milliseconds (since_start w)"
  "Stdout (make_result w a b err) = a"
  "Stderr (make_result w a b err) = b"
  "make_result w a b None =
     \<lparr>ExitCode = 0, Stdout = a, Stderr = b, DurationMs = Milliseconds (since_start w), Error = None\<rparr>"
  "make_result w a b (Some (ExitError st)) =
     \<lparr>ExitCode = ExitCode_of st, Stdout = a, Stderr = b,
      DurationMs = Milliseconds (since_start w), Error = None\<rparr>"
  "make_result w a b (Some (LibError e)) =
     \<lparr>ExitCode = 0, Stdout = a, Stderr = b, DurationMs = Milliseconds (since_start w),
      Error = Some (LibError e)\<rparr>"
  by (simp_all add: make_result_def Let_def split: option.splits go_error.splits)

lemma cmd_Wait_killed:
  "killed_by ctx ch \<Longrightarrow> Wait_fails w = None \<Longrightarrow>
   cmd_Wait w ctx ch = Some (Some (ExitError (Signaled SIGKILL)))"
  by (simp add: cmd_Wait_def final_state_def)

lemma cmd_Wait_exited:
  "\<not> killed_by ctx ch \<Longrightarrow> exits_after ch = Some l \<Longrightarrow> Wait_fails w = None \<Longrightarrow>
   cmd_Wait w ctx ch =
     Some (if exit_status ch = 0 then None else Some (ExitError (Exited (exit_status ch))))"
  by (simp add: cmd_Wait_def final_state_def)

lemma cmd_Wait_failed:
  "final_state ctx ch \<noteq> None \<Longrightarrow> Wait_fails w = Some e \<Longrightarrow>
   cmd_Wait w ctx ch = Some (Some (LibError e))"
  by (auto simp: cmd_Wait_def)

lemma cmd_Wait_None: "(cmd_Wait w ctx ch = None) = (final_state ctx ch = None)"
  by (auto simp: cmd_Wait_def split: option.splits)

lemma ExecuteScanner_started:
  "started w (ExecuteScanner_cmd w cfg) \<Longrightarrow>
   ExecuteScanner w ctx cfg =
     map_option
       (\<lambda>err. (Some (make_result w (fst (writes_stdout (spawn w (ExecuteScanner_cmd w cfg))))
                        (fst (writes_stderr (spawn w (ExecuteScanner_cmd w cfg)))) err), None))
       (cmd_Wait w (governing ctx cfg) (spawn w (ExecuteScanner_cmd w cfg)))"
  by (simp add: started_def ExecuteScanner_def governing_def Let_def captureOutput_fst
      split: option.splits)

lemma StreamScanner_started:
  "started w (StreamScanner_cmd w cfg) \<Longrightarrow>
   StreamScanner w ctx cfg handler =
     map_option
       (\<lambda>err. (Some (make_result w
           (fst (streamWithHandler (writes_stdout (spawn w (StreamScanner_cmd w cfg))) handler False))
           (fst (streamWithHandler (writes_stderr (spawn w (StreamScanner_cmd w cfg))) handler True))
           err), None))
       (cmd_Wait w (governing ctx cfg) (spawn w (StreamScanner_cmd w cfg)))"
  by (simp add: started_def StreamScanner_def governing_def Let_def split: option.splits)

lemma ExecuteScanner_not_started:
  "\<not> started w (ExecuteScanner_cmd w cfg) \<Longrightarrow>
   \<exists>e. ExecuteScanner w ctx cfg = Some (None, Some e)"
  by (auto simp: started_def ExecuteScanner_def Let_def split: option.splits)

lemma StreamScanner_not_started:
  "\<not> started w (StreamScanner_cmd w cfg) \<Longrightarrow>
   \<exists>e. StreamScanner w ctx cfg handler = Some (None, Some e)"
  by (auto simp: started_def StreamScanner_def Let_def split: option.splits)

subsection \<open>The duration\<close>

text \<open>
  Claim C1 as stated fails: when the binary is missing, \<^verbatim>\<open>ExecuteScanner\<close> returns \<^verbatim>\<open>nil\<close> for
  the result and only an error, so no duration is reported.
\<close>

theorem ExecuteScanner_start_failure_no_result:
  "ExecuteScanner os_missing_binary None cfg_trivy =
     Some (None, Some (Errorf ''failed to start scanner''
        (LibError ''exec: \"trivy\": executable file not found in $PATH'')))"
  by (simp add: ExecuteScanner_def example_defs Let_def)

text \<open>
  Claim C1, amended. When both pipes are created and the process starts, \<^verbatim>\<open>ExecuteScanner\<close>
  returns if and only if the child exits or the governing context kills it, and what it
  returns is then a result, without error value, whose \<^verbatim>\<open>DurationMs\<close> is the time elapsed
  since the start in milliseconds; this includes the child killed by the timeout. When a
  pipe cannot be created or the process cannot be started, it returns no result and an error.
\<close>

theorem ExecuteScanner_duration:
  "(started w (ExecuteScanner_cmd w cfg) \<longrightarrow>
      (ExecuteScanner w ctx cfg = None) =
        (final_state (governing ctx cfg) (spawn w (ExecuteScanner_cmd w cfg)) = None) \<and>
      (\<forall>out. ExecuteScanner w ctx cfg = Some out \<longrightarrow>
         (\<exists>r. out = (Some r, None) \<and> DurationMs r = Milliseconds (since_start w)))) \<and>
   (started w (ExecuteScanner_cmd w cfg) \<and>
      killed_by (governing ctx cfg) (spawn w (ExecuteScanner_cmd w cfg)) \<longrightarrow>
      (\<exists>r. ExecuteScanner w ctx cfg = Some (Some r, None) \<and>
           DurationMs r = Milliseconds (since_start w))) \<and>
   (\<not> started w (ExecuteScanner_cmd w cfg) \<longrightarrow>
      (\<exists>e. ExecuteScanner w ctx cfg = Some (None, Some e)))"
proof -
  let ?ch = "spawn w (ExecuteScanner_cmd w cfg)"
  have a: "(ExecuteScanner w ctx cfg = None) = (final_state (governing ctx cfg) ?ch = None)"
    if "started w (ExecuteScanner_cmd w cfg)"
    by (simp add: ExecuteScanner_started [OF that] cmd_Wait_None)
  have b: "\<exists>r. out = (Some r, None) \<and> DurationMs r = Milliseconds (since_start w)"
    if "started w (ExecuteScanner_cmd w cfg)" "ExecuteScanner w ctx cfg = Some out" for out
    using that(2) by (auto simp: ExecuteScanner_started [OF that(1)] make_result_fields)
  have c: "\<exists>r. ExecuteScanner w ctx cfg = Some (Some r, None) \<and>
           DurationMs r = Milliseconds (since_start w)"
    if s: "started w (ExecuteScanner_cmd w cfg)" and k: "killed_by (governing ctx cfg) ?ch"
  proof -
    from k have "final_state (governing ctx cfg) ?ch \<noteq> None"
      by (simp add: final_state_def)
    with a [OF s] obtain out where out: "ExecuteScanner w ctx cfg = Some out" by auto
    with b [OF s out] show ?thesis by auto
  qed
  from a b c ExecuteScanner_not_started [of w cfg ctx] show ?thesis by blast
qed

theorem ExecuteScanner_duration_witness:
  "started os_slow_child (ExecuteScanner_cmd os_slow_child cfg_trivy) \<and>
   killed_by (governing None cfg_trivy) (spawn os_slow_child (ExecuteScanner_cmd os_slow_child cfg_trivy)) \<and>
   (\<exists>r. ExecuteScanner os_slow_child None cfg_trivy = Some (Some r, None) \<and> DurationMs r = 100) \<and>
   \<not> started os_missing_binary (ExecuteScanner_cmd os_missing_binary cfg_trivy) \<and>
   (\<exists>e. ExecuteScanner os_missing_binary None cfg_trivy = Some (None, Some e))"
proof -
  have s: "started os_slow_child (ExecuteScanner_cmd os_slow_child cfg_trivy)"
    by (simp add: started_def example_defs)
  have k: "killed_by (governing None cfg_trivy)
             (spawn os_slow_child (ExecuteScanner_cmd os_slow_child cfg_trivy))"
    by (simp add: killed_by_def governing_def WithTimeout_def example_defs)
  have ms: "Milliseconds (since_start os_slow_child) = 100"
    by (simp add: Milliseconds_def example_defs)
  have n: "\<not> started os_missing_binary (ExecuteScanner_cmd os_missing_binary cfg_trivy)"
    by (simp add: started_def example_defs)
  from s k ExecuteScanner_duration [of os_slow_child cfg_trivy None]
  have r: "\<exists>r. ExecuteScanner os_slow_child None cfg_trivy = Some (Some r, None) \<and>
               DurationMs r = Milliseconds (since_start os_slow_child)"
    by blast
  from n ExecuteScanner_duration [of os_missing_binary cfg_trivy None]
  have e: "\<exists>e. ExecuteScanner os_missing_binary None cfg_trivy = Some (None, Some e)"
    by blast
  from s k r e n show ?thesis by (simp add: ms)
qed

subsection \<open>Exit code and error\<close>

text \<open>
  Claim C2 as stated fails: with a timeout of 100 ms and a child that would run for 5 s, the
  child is killed at the deadline, \<^verbatim>\<open>cmd.Wait()\<close> reports the kill as an \<^verbatim>\<open>*exec.ExitError\<close>, and
  the result has the exit code -1 and no error.
\<close>

theorem ExecuteScanner_timeout_exit_code:
  "ExecuteScanner os_slow_child None cfg_trivy =
     Some (Some \<lparr>ExitCode = - 1, Stdout = ''scanning'' @ [newline], Stderr = [],
                   DurationMs = 100, Error = None\<rparr>, None)"
  by (simp add: ExecuteScanner_def example_defs Let_def captureOutput_complete WithTimeout_def
      cmd_Wait_def final_state_def killed_by_def make_result_def Milliseconds_def)

text \<open>
  Claim C2, amended, for \<^verbatim>\<open>ExecuteScanner\<close> and \<^verbatim>\<open>StreamScanner\<close> alike. After a start, and when
  the wait itself does not fail: a child killed because the governing context (the timeout,
  when positive) was done first gives a result with exit code -1 and no error; a child that
  exited by itself gives a result with its exit status as exit code and no error. The
  \<^verbatim>\<open>Error\<close> field is set only when \<^verbatim>\<open>cmd.Wait()\<close> fails with an error that is not an
  \<^verbatim>\<open>*exec.ExitError\<close>; the exit code is then 0. A failure to create a pipe or to start is
  not reported in a result: the call returns no result and an error value.
\<close>

theorem exit_code_and_error:
  "(started w (ExecuteScanner_cmd w cfg) \<and> Wait_fails w = None \<and>
      killed_by (governing ctx cfg) (spawn w (ExecuteScanner_cmd w cfg)) \<longrightarrow>
      (\<exists>r. ExecuteScanner w ctx cfg = Some (Some r, None) \<and> ExitCode r = - 1 \<and> Error r = None)) \<and>
   (started w (ExecuteScanner_cmd w cfg) \<and> Wait_fails w = None \<and>
      \<not> killed_by (governing ctx cfg) (spawn w (ExecuteScanner_cmd w cfg)) \<and>
      exits_after (spawn w (ExecuteScanner_cmd w cfg)) = Some l \<longrightarrow>
      (\<exists>r. ExecuteScanner w ctx cfg = Some (Some r, None) \<and>
           ExitCode r = exit_status (spawn w (ExecuteScanner_cmd w cfg)) \<and> Error r = None)) \<and>
   (started w (ExecuteScanner_cmd w cfg) \<and> Wait_fails w = Some msg \<and>
      final_state (governing ctx cfg) (spawn w (ExecuteScanner_cmd w cfg)) \<noteq> None \<longrightarrow>
      (\<exists>r. ExecuteScanner w ctx cfg = Some (Some r, None) \<and> ExitCode r = 0 \<and>
           Error r = Some (LibError msg))) \<and>
   (\<not> started w (ExecuteScanner_cmd w cfg) \<longrightarrow>
      (\<exists>e. ExecuteScanner w ctx cfg = Some (None, Some e))) \<and>
   (started w (StreamScanner_cmd w cfg) \<and> Wait_fails w = None \<and>
      killed_by (governing ctx cfg) (spawn w (StreamScanner_cmd w cfg)) \<longrightarrow>
      (\<exists>r. StreamScanner w ctx cfg handler = Some (Some r, None) \<and> ExitCode r = - 1 \<and>
           Error r = None)) \<and>
   (started w (StreamScanner_cmd w cfg) \<and> Wait_fails w = None \<and>
      \<not> killed_by (governing ctx cfg) (spawn w (StreamScanner_cmd w cfg)) \<and>
      exits_after (spawn w (StreamScanner_cmd w cfg)) = Some l' \<longrightarrow>
      (\<exists>r. StreamScanner w ctx cfg handler = Some (Some r, None) \<and>
           ExitCode r = exit_status (spawn w (StreamScanner_cmd w cfg)) \<and> Error r = None)) \<and>
   (started w (StreamScanner_cmd w cfg) \<and> Wait_fails w = Some msg \<and>
      final_state (governing ctx cfg) (spawn w (StreamScanner_cmd w cfg)) \<noteq> None \<longrightarrow>
      (\<exists>r. StreamScanner w ctx cfg handler = Some (Some r, None) \<and> ExitCode r = 0 \<and>
           Error r = Some (LibError msg))) \<and>
   (\<not> started w (StreamScanner_cmd w cfg) \<longrightarrow>
      (\<exists>e. StreamScanner w ctx cfg handler = Some (None, Some e)))"
proof -
  have e1: "started w (ExecuteScanner_cmd w cfg) \<and> Wait_fails w = None \<and>
      killed_by (governing ctx cfg) (spawn w (ExecuteScanner_cmd w cfg)) \<longrightarrow>
      (\<exists>r. ExecuteScanner w ctx cfg = Some (Some r, None) \<and> ExitCode r = - 1 \<and> Error r = None)"
    by (auto simp: ExecuteScanner_started cmd_Wait_killed make_result_fields)
  have e2: "started w (ExecuteScanner_cmd w cfg) \<and> Wait_fails w = None \<and>
      \<not> killed_by (governing ctx cfg) (spawn w (ExecuteScanner_cmd w cfg)) \<and>
      exits_after (spawn w (ExecuteScanner_cmd w cfg)) = Some l \<longrightarrow>
      (\<exists>r. ExecuteScanner w ctx cfg = Some (Some r, None) \<and>
           ExitCode r = exit_status (spawn w (ExecuteScanner_cmd w cfg)) \<and> Error r = None)"
    by (auto simp: ExecuteScanner_started cmd_Wait_exited make_result_fields)
  have e3: "started w (ExecuteScanner_cmd w cfg) \<and> Wait_fails w = Some msg \<and>
      final_state (governing ctx cfg) (spawn w (ExecuteScanner_cmd w cfg)) \<noteq> None \<longrightarrow>
      (\<exists>r. ExecuteScanner w ctx cfg = Some (Some r, None) \<and> ExitCode r = 0 \<and>
           Error r = Some (LibError msg))"
    by (auto simp: ExecuteScanner_started cmd_Wait_failed make_result_fields)
  have e4: "\<not> started w (ExecuteScanner_cmd w cfg) \<longrightarrow>
      (\<exists>e. ExecuteScanner w ctx cfg = Some (None, Some e))"
    by (simp add: ExecuteScanner_not_started)
  have s1: "started w (StreamScanner_cmd w cfg) \<and> Wait_fails w = None \<and>
      killed_by (governing ctx cfg) (spawn w (StreamScanner_cmd w cfg)) \<longrightarrow>
      (\<exists>r. StreamScanner w ctx cfg handler = Some (Some r, None) \<and> ExitCode r = - 1 \<and>
           Error r = None)"
    by (auto simp: StreamScanner_started cmd_Wait_killed make_result_fields)
  have s2: "started w (StreamScanner_cmd w cfg) \<and> Wait_fails w = None \<and>
      \<not> killed_by (governing ctx cfg) (spawn w (StreamScanner_cmd w cfg)) \<and>
      exits_after (spawn w (StreamScanner_cmd w cfg)) = Some l' \<longrightarrow>
      (\<exists>r. StreamScanner w ctx cfg handler = Some (Some r, None) \<and>
           ExitCode r = exit_status (spawn w (StreamScanner_cmd w cfg)) \<and> Error r = None)"
    by (auto simp: StreamScanner_started cmd_Wait_exited make_result_fields)
  have s3: "started w (StreamScanner_cmd w cfg) \<and> Wait_fails w = Some msg \<and>
      final_state (governing ctx cfg) (spawn w (StreamScanner_cmd w cfg)) \<noteq> None \<longrightarrow>
      (\<exists>r. StreamScanner w ctx cfg handler = Some (Some r, None) \<and> ExitCode r = 0 \<and>
           Error r = Some (LibError msg))"
    by (auto simp: StreamScanner_started cmd_Wait_failed make_result_fields)
  have s4: "\<not> started w (StreamScanner_cmd w cfg) \<longrightarrow>
      (\<exists>e. StreamScanner w ctx cfg handler = Some (None, Some e))"
    by (simp add: StreamScanner_not_started)
  show ?thesis by (intro conjI; fact)
qed

theorem exit_code_and_error_witness:
  "started os_failing_child (ExecuteScanner_cmd os_failing_child cfg_trivy) \<and>
   Wait_fails os_failing_child = None \<and>
   \<not> killed_by (governing None cfg_trivy)
        (spawn os_failing_child (ExecuteScanner_cmd os_failing_child cfg_trivy)) \<and>
   exits_after (spawn os_failing_child (ExecuteScanner_cmd os_failing_child cfg_trivy)) =
     Some 20000000 \<and>
   (\<exists>r. ExecuteScanner os_failing_child None cfg_trivy = Some (Some r, None) \<and>
        ExitCode r = 3 \<and> Error r = None) \<and>
   started os_slow_child (StreamScanner_cmd os_slow_child cfg_trivy) \<and>
   killed_by (governing None cfg_trivy)
     (spawn os_slow_child (StreamScanner_cmd os_slow_child cfg_trivy)) \<and>
   (\<exists>r. StreamScanner os_slow_child None cfg_trivy True = Some (Some r, None) \<and>
        ExitCode r = - 1 \<and> Error r = None)"
proof -
  have a: "started os_failing_child (ExecuteScanner_cmd os_failing_child cfg_trivy)"
    "Wait_fails os_failing_child = None"
    "\<not> killed_by (governing None cfg_trivy)
        (spawn os_failing_child (ExecuteScanner_cmd os_failing_child cfg_trivy))"
    "exits_after (spawn os_failing_child (ExecuteScanner_cmd os_failing_child cfg_trivy)) =
       Some 20000000"
    "exit_status (spawn os_failing_child (ExecuteScanner_cmd os_failing_child cfg_trivy)) = 3"
    by (simp_all add: started_def killed_by_def governing_def WithTimeout_def example_defs)
  have b: "started os_slow_child (StreamScanner_cmd os_slow_child cfg_trivy)"
    "Wait_fails os_slow_child = None"
    "killed_by (governing None cfg_trivy)
       (spawn os_slow_child (StreamScanner_cmd os_slow_child cfg_trivy))"
    by (simp_all add: started_def killed_by_def governing_def WithTimeout_def example_defs)
  from a exit_code_and_error [of os_failing_child cfg_trivy None 20000000]
  have c: "\<exists>r. ExecuteScanner os_failing_child None cfg_trivy = Some (Some r, None) \<and>
        ExitCode r = 3 \<and> Error r = None"
    by simp
  from b exit_code_and_error [of os_slow_child cfg_trivy None _ _ True]
  have d: "\<exists>r. StreamScanner os_slow_child None cfg_trivy True = Some (Some r, None) \<and>
        ExitCode r = - 1 \<and> Error r = None"
    by simp
  from a(1-4) c b(1,3) d show ?thesis by (intro conjI)
qed

subsection \<open>Working directory and environment\<close>

lemma append_overrides:
  "foldl (\<lambda>env (k, v). env @ [k @ ''='' @ v]) env0 kvs = env0 @ map (\<lambda>(k, v). k @ ''='' @ v) kvs"
  by (induction kvs arbitrary: env0) (simp_all add: case_prod_beta)

lemma ExecuteScanner_cmd_fields:
  "Cmd_Dir (ExecuteScanner_cmd w cfg) = WorkDir cfg"
  "Cmd_Env (ExecuteScanner_cmd w cfg) =
     (if Env cfg = [] then None
      else Some (Environ w (CommandContext (Binary cfg) (Args cfg)\<lparr>Cmd_Dir := WorkDir cfg\<rparr>) @
                 map (\<lambda>(k, v). k @ ''='' @ v) (Env cfg)))"
  unfolding ExecuteScanner_cmd_def Let_def append_overrides
  by (simp_all add: CommandContext_def)

lemma StreamScanner_cmd_fields:
  "Cmd_Dir (StreamScanner_cmd w cfg) = WorkDir cfg"
  "Cmd_Env (StreamScanner_cmd w cfg) = None"
  by (simp_all add: StreamScanner_cmd_def Let_def CommandContext_def)

text \<open>
  Claim C6, evaluated on a configuration with the working directory \<open>/src\<close> and the
  environment override \<open>FOO=bar\<close>. Both functions give the command the working directory
  of the configuration. \<^verbatim>\<open>ExecuteScanner\<close> gives it the inherited environment followed by the
  override; \<^verbatim>\<open>StreamScanner\<close> leaves \<^verbatim>\<open>cmd.Env\<close> at \<^verbatim>\<open>nil\<close>, here and for every configuration,
  so its child runs in the inherited environment without the override, and no override ever
  changes what \<^verbatim>\<open>StreamScanner\<close> returns.
\<close>

theorem StreamScanner_drops_environment:
  "Cmd_Dir (ExecuteScanner_cmd os_slow_child cfg_trivy) = ''/src'' \<and>
   Cmd_Dir (StreamScanner_cmd os_slow_child cfg_trivy) = ''/src'' \<and>
   Cmd_Env (ExecuteScanner_cmd os_slow_child cfg_trivy) = Some [''PATH=/usr/bin'', ''FOO=bar''] \<and>
   Cmd_Env (StreamScanner_cmd os_slow_child cfg_trivy) = None \<and>
   Cmd_Dir (ExecuteScanner_cmd w cfg) = WorkDir cfg \<and>
   Cmd_Dir (StreamScanner_cmd w cfg) = WorkDir cfg \<and>
   Cmd_Env (StreamScanner_cmd w cfg) = None \<and>
   StreamScanner w ctx (cfg\<lparr>Env := env\<rparr>) handler = StreamScanner w ctx cfg handler"
proof -
  have cmd: "StreamScanner_cmd w (cfg\<lparr>Env := env\<rparr>) = StreamScanner_cmd w cfg"
    by (simp add: StreamScanner_cmd_def Let_def)
  have t: "Timeout (cfg\<lparr>Env := env\<rparr>) = Timeout cfg"
    by simp
  have same: "StreamScanner w ctx (cfg\<lparr>Env := env\<rparr>) handler = StreamScanner w ctx cfg handler"
    unfolding StreamScanner_def cmd t ..
  have example: "Cmd_Env (ExecuteScanner_cmd os_slow_child cfg_trivy) =
      Some [''PATH=/usr/bin'', ''FOO=bar'']"
    by (simp add: ExecuteScanner_cmd_fields example_defs)
  have dir: "WorkDir cfg_trivy = ''/src''"
    by (simp add: example_defs)
  from same example dir show ?thesis
    by (simp add: ExecuteScanner_cmd_fields(1) StreamScanner_cmd_fields)
qed

end
